theory Spec2Isabelle
  imports Main "HOL-Library.Word"
begin

section \<open>Shared vocabulary\<close>

text \<open>
  \<^verbatim>\<open>ByteArray\<close> is a \<^verbatim>\<open>Uint8Array\<close>; \<^verbatim>\<open>ByteArray.concat\<close> is list append and
  \<^verbatim>\<open>a.equals(b)\<close> is equality of the byte sequences.
\<close>

type_synonym ByteArray = "8 word list"

text \<open>Encoded TLV, as produced by \<^verbatim>\<open>schema.encodeTlv\<close> (the codec itself is a collaborator).\<close>

type_synonym TlvStream = "8 word list"

text \<open>
  Decoded attribute and command values (\<^verbatim>\<open>any\<close> in the source). JavaScript's
  \<^verbatim>\<open>undefined\<close> is not one of them: a value that may be undefined is a \<open>jsval option\<close>
  and \<open>None\<close> is \<^verbatim>\<open>undefined\<close>.
\<close>

datatype jsval = JNull | JBool bool | JNum int | JStr string

text \<open>
  \<^verbatim>\<open>InteractionProtocolStatusCode\<close> and \<^verbatim>\<open>ResultCode\<close> are enums declared outside the two
  files; the code only names the members below, every other member is an \<open>Other\<close> code.
\<close>

datatype StatusCode = Success | Failure | InvalidSubscription | OtherStatus nat

datatype ResultCode = ResultCode_Success | ResultCode_Other nat

record AttributePath =
  nodeId :: "nat option"
  endpointId :: "nat option"
  clusterId :: "nat option"
  attributeId :: "nat option"

text \<open>
  Every \<^verbatim>\<open>throw\<close> of the two files is one constructor, named after its message; an
  exception raised inside a collaborator (messenger, crypto, TLV codec, fabric, a user
  callback) is \<open>External\<close> with a tag chosen by whoever scripts the collaborator.
\<close>

datatype error =
    External string
  | MissingPbkdfParameters
      \<comment> \<open>\<^verbatim>\<open>Error("Missing requested PbkdfParameters in the response")\<close>\<close>
  | IncorrectKeyConfirmation
      \<comment> \<open>\<^verbatim>\<open>Error("Received incorrect key confirmation from the receiver")\<close>\<close>
  | DataReportWithoutSubscriptionId
      \<comment> \<open>\<^verbatim>\<open>Error("Invalid Data report without Subscription ID")\<close>\<close>
  | UnknownSubscriptionId nat
      \<comment> \<open>\<^verbatim>\<open>Error(`Unknown subscription ID ${subscriptionId}`)\<close>\<close>
  | MoreThanOneAttribute
      \<comment> \<open>\<^verbatim>\<open>Error("Unexpected response with more then one attribute")\<close>\<close>
  | NoResponseReceived
      \<comment> \<open>\<^verbatim>\<open>Error("No response received")\<close>\<close>
  | StatusResponseError AttributePath StatusCode
      \<comment> \<open>\<^verbatim>\<open>StatusResponseError(`Error setting attribute ${e}/${c}/${a}`, status)\<close>\<close>
  | SubscriptionNoValue
      \<comment> \<open>\<^verbatim>\<open>Error('Subscription result reporting undefined/no value not specified')\<close>\<close>
  | SubscriptionUndefinedValue
      \<comment> \<open>\<^verbatim>\<open>Error('Subscription result reporting undefined value not specified')\<close>\<close>
  | NonSuccessResult ResultCode
      \<comment> \<open>\<^verbatim>\<open>Error(`Received non-success result: ${resultCode}`)\<close>\<close>
  | ResponseExpected
      \<comment> \<open>\<^verbatim>\<open>Error("A response was expected for this command")\<close>\<close>
  | NoResultNorResponse
      \<comment> \<open>\<^verbatim>\<open>Error("Received invoke response with no result nor response")\<close>\<close>

text \<open>Sequencing of fallible pure steps (a \<^verbatim>\<open>throw\<close> skips the rest).\<close>

fun mapE :: "('a \<Rightarrow> error + 'b) \<Rightarrow> 'a list \<Rightarrow> error + 'b list" where
  "mapE f [] = Inr []"
| "mapE f (x # xs) =
     (case f x of
        Inl e \<Rightarrow> Inl e
      | Inr y \<Rightarrow> (case mapE f xs of Inl e \<Rightarrow> Inl e | Inr ys \<Rightarrow> Inr (y # ys)))"

text \<open>JavaScript truthiness of an optional boolean field: \<^verbatim>\<open>undefined\<close> is falsy.\<close>

fun truthy :: "bool option \<Rightarrow> bool" where
  "truthy None = False"
| "truthy (Some b) = b"


section \<open>The Interaction Protocol client\<close>

subsection \<open>Messages\<close>

text \<open>
  The raw attribute report (\<^verbatim>\<open>TypeFromSchema<typeof TlvAttributeReport>\<close>) is declared
  outside the file and only passed around, so the model is polymorphic in it (\<open>'r\<close>).
\<close>

record 'r DataReport =
  subscriptionId :: "nat option"
  report_values :: "'r list option"
  moreChunkedMessages :: "bool option"
  suppressResponse :: "bool option"

record DecodedAttributeReportValue =
  path :: AttributePath
  version :: nat
  decoded_value :: "jsval option"

record ReadRequest =
  attributes :: "AttributePath list"
  interactionModelRevision :: nat
  isFabricFiltered :: bool

datatype TlvSchema = TlvNoResponse | TlvSchemaOf nat

record Attribute =
  attribute_id :: nat
  attribute_schema :: TlvSchema

record AttributeWrite =
  write_endpointId :: nat
  write_clusterId :: nat
  write_attribute :: Attribute
  write_value :: jsval
  write_dataVersion :: "nat option"

record WriteRequestEntry =
  wr_path :: AttributePath
  wr_data :: TlvStream
  wr_dataVersion :: "nat option"

record WriteRequest =
  w_suppressResponse :: bool
  w_timedRequest :: bool
  writeRequests :: "WriteRequestEntry list"
  w_moreChunkedMessages :: bool
  w_interactionModelRevision :: nat

text \<open>One entry of \<^verbatim>\<open>response.writeResponses\<close>: \<^verbatim>\<open>{ status: { status, clusterStatus }, path }\<close>.\<close>

record WriteResponseEntry =
  wre_status :: "StatusCode option"
  wre_clusterStatus :: "StatusCode option"
  wre_path :: AttributePath

record WriteResponse =
  writeResponses :: "WriteResponseEntry list"

record AttributeStatus =
  as_path :: AttributePath
  as_status :: StatusCode

record SubscribeRequest =
  attributeRequests :: "AttributePath list"
  keepSubscriptions :: bool
  minIntervalFloorSeconds :: nat
  maxIntervalCeilingSeconds :: nat
  s_isFabricFiltered :: bool

record InvokeRequest =
  invoke_endpointId :: nat
  invoke_clusterId :: nat
  invoke_commandId :: nat
  invoke_args :: TlvStream
  i_timedRequest :: bool
  i_suppressResponse :: bool
  i_interactionModelRevision :: nat

text \<open>
  One entry of \<^verbatim>\<open>invokeResponse.responses\<close>: \<open>ire_response\<close> is \<^verbatim>\<open>response.response\<close> and
  \<open>ire_result\<close> is \<^verbatim>\<open>result.result.code\<close>, each \<open>None\<close> when the outer field is undefined.
\<close>

record InvokeResponseEntry =
  ire_response :: "TlvStream option"
  ire_result :: "ResultCode option"

record InvokeResponse =
  responses :: "InvokeResponseEntry list"

subsection \<open>Collaborators\<close>

text \<open>
  Functions imported from other modules are parameters: the attribute decoder, the key
  derivation of the cache and the TLV codec of a schema. The codec and the decoder may
  throw.
\<close>

record 'r externals =
  normalizeAndDecodeReadAttributeReport :: "'r list \<Rightarrow> error + DecodedAttributeReportValue list"
  attributePathToId :: "AttributePath \<Rightarrow> string"
  encodeTlv :: "TlvSchema \<Rightarrow> jsval \<Rightarrow> error + TlvStream"
  decodeTlv :: "TlvSchema \<Rightarrow> TlvStream \<Rightarrow> error + jsval option"

text \<open>
  The peer and the exchange layer behind one messenger. Each field is the outcome of the
  messenger method of that name: \<open>Inl\<close> (or \<open>Some\<close> for a method returning nothing) is
  the exception it rejects with. \<^verbatim>\<open>readDataReport\<close> and \<^verbatim>\<open>sendStatus\<close> are called
  repeatedly; their index is the number of \<^verbatim>\<open>readDataReport\<close> calls already made on
  the messenger.
\<close>

record 'r exchange =
  sendReadRequest_result :: "ReadRequest \<Rightarrow> error + 'r DataReport"
  readDataReport_result :: "nat \<Rightarrow> error + 'r DataReport"
  sendStatus_result :: "nat \<Rightarrow> StatusCode \<Rightarrow> error option"
  sendWriteCommand_result :: "WriteRequest \<Rightarrow> error + WriteResponse option"
  sendSubscribeRequest_result :: "SubscribeRequest \<Rightarrow> error + ('r DataReport \<times> nat)"
  sendInvokeCommand_result :: "InvokeRequest \<Rightarrow> error + InvokeResponse option"

subsection \<open>Client state and effects\<close>

text \<open>
  Everything that passes between the client and the outside world, in the order it
  happens: messengers constructed and closed, messages handed to the exchange, data
  reports received, log lines and calls of user callbacks.
\<close>

datatype event =
    MessengerCreated
  | MessengerClosed
  | SentReadRequest ReadRequest
  | SentStatus StatusCode
  | SentWriteCommand WriteRequest
  | SentSubscribeRequest SubscribeRequest
  | SentInvokeCommand InvokeRequest
  | ReceivedDataReport
  | LoggerDebug string
  | ListenerCalled jsval nat
  | ListenerCalledWith DecodedAttributeReportValue

text \<open>
  The closures stored in \<^verbatim>\<open>subscriptionListeners\<close> are the two \<^verbatim>\<open>subscriptionListener\<close>
  arrow functions; each captures the optional user callback. A user callback is opaque:
  it returns normally (\<open>None\<close>) or throws (\<open>Some e\<close>).
\<close>

datatype listener =
    SubscribeListener "(jsval \<Rightarrow> nat \<Rightarrow> error option) option"
  | SubscribeMultipleListener "(DecodedAttributeReportValue \<Rightarrow> error option) option"

record CachedValue =
  cached_value :: jsval
  cached_version :: "nat option"

record client =
  subscriptionListeners :: "nat \<Rightarrow> listener option"
  subscribedLocalValues :: "string \<Rightarrow> CachedValue option"
  trace :: "event list"

text \<open>
  An \<^verbatim>\<open>async\<close> method either never settles (\<open>None\<close>) or settles with a value or an
  exception and the state it leaves.
\<close>

type_synonym 'a async = "client \<Rightarrow> ((error + 'a) \<times> client) option"

definition emit :: "event \<Rightarrow> client \<Rightarrow> client" where
  "emit ev st = st\<lparr>trace := trace st @ [ev]\<rparr>"

subsection \<open>Messenger methods\<close>

definition sendReadRequest :: "'r exchange \<Rightarrow> ReadRequest \<Rightarrow> client \<Rightarrow> (error + 'r DataReport) \<times> client" where
  "sendReadRequest ex request st =
     (case sendReadRequest_result ex request of
        Inl e \<Rightarrow> (Inl e, st)
      | Inr report \<Rightarrow> (Inr report, emit ReceivedDataReport (emit (SentReadRequest request) st)))"

definition sendStatus :: "'r exchange \<Rightarrow> nat \<Rightarrow> StatusCode \<Rightarrow> client \<Rightarrow> (error + unit) \<times> client" where
  "sendStatus ex n code st =
     (case sendStatus_result ex n code of
        Some e \<Rightarrow> (Inl e, st)
      | None \<Rightarrow> (Inr (), emit (SentStatus code) st))"

definition readDataReport :: "'r exchange \<Rightarrow> nat \<Rightarrow> client \<Rightarrow> (error + 'r DataReport) \<times> client" where
  "readDataReport ex n st =
     (case readDataReport_result ex n of
        Inl e \<Rightarrow> (Inl e, st)
      | Inr report \<Rightarrow> (Inr report, emit ReceivedDataReport st))"

definition sendWriteCommand :: "'r exchange \<Rightarrow> WriteRequest \<Rightarrow> client \<Rightarrow> (error + WriteResponse option) \<times> client" where
  "sendWriteCommand ex request st =
     (case sendWriteCommand_result ex request of
        Inl e \<Rightarrow> (Inl e, st)
      | Inr response \<Rightarrow> (Inr response, emit (SentWriteCommand request) st))"

definition sendSubscribeRequest :: "'r exchange \<Rightarrow> SubscribeRequest \<Rightarrow> client \<Rightarrow> (error + ('r DataReport \<times> nat)) \<times> client" where
  "sendSubscribeRequest ex request st =
     (case sendSubscribeRequest_result ex request of
        Inl e \<Rightarrow> (Inl e, st)
      | Inr reply \<Rightarrow>
          (Inr reply, emit ReceivedDataReport (emit (SentSubscribeRequest request) st)))"

definition sendInvokeCommand :: "'r exchange \<Rightarrow> InvokeRequest \<Rightarrow> client \<Rightarrow> (error + InvokeResponse option) \<times> client" where
  "sendInvokeCommand ex request st =
     (case sendInvokeCommand_result ex request of
        Inl e \<Rightarrow> (Inl e, st)
      | Inr response \<Rightarrow> (Inr response, emit (SentInvokeCommand request) st))"

text \<open>
  \<^verbatim>\<open>withMessenger\<close>: construct the messenger, run the body, close in the \<^verbatim>\<open>finally\<close>
  block whatever the body settled with.
\<close>

definition withMessenger :: "'a async \<Rightarrow> 'a async" where
  "withMessenger invoke st =
     (case invoke (emit MessengerCreated st) of
        None \<Rightarrow> None
      | Some (r, st') \<Rightarrow> Some (r, emit MessengerClosed st'))"

subsection \<open>Reading\<close>

text \<open>
  The \<^verbatim>\<open>while (true)\<close> loop of \<^verbatim>\<open>processReadRequest\<close>. \<open>n\<close> counts the
  \<^verbatim>\<open>readDataReport\<close> calls made so far, \<open>result\<close> is the accumulator. A peer that keeps
  sending chunks with \<^verbatim>\<open>moreChunkedMessages\<close> set keeps the loop running for ever.
\<close>

partial_function (option) processReadRequest_loop ::
  "'r exchange \<Rightarrow> nat \<Rightarrow> 'r DataReport \<Rightarrow> 'r list \<Rightarrow> client \<Rightarrow> ((error + 'r list) \<times> client) option"
where
  "processReadRequest_loop ex n response result st =
     (let result' = (case report_values response of None \<Rightarrow> result | Some vs \<Rightarrow> result @ vs) in
      case (if \<not> truthy (suppressResponse response) then sendStatus ex n Success st
            else (Inr (), st)) of
        (Inl e, st') \<Rightarrow> Some (Inl e, st')
      | (Inr u, st') \<Rightarrow>
          if \<not> truthy (moreChunkedMessages response) then Some (Inr result', st')
          else (case readDataReport ex n st' of
                  (Inl e, st'') \<Rightarrow> Some (Inl e, st'')
                | (Inr response', st'') \<Rightarrow>
                    processReadRequest_loop ex (Suc n) response' result' st''))"

definition processReadRequest ::
  "'r externals \<Rightarrow> 'r exchange \<Rightarrow> ReadRequest \<Rightarrow> DecodedAttributeReportValue list async"
where
  "processReadRequest ext ex request st =
     (case sendReadRequest ex request st of
        (Inl e, st') \<Rightarrow> Some (Inl e, st')
      | (Inr response, st') \<Rightarrow>
          (case processReadRequest_loop ex 0 response [] st' of
             None \<Rightarrow> None
           | Some (Inl e, st'') \<Rightarrow> Some (Inl e, st'')
           | Some (Inr result, st'') \<Rightarrow>
               Some (normalizeAndDecodeReadAttributeReport ext result, st'')))"

definition getMultipleAttributes ::
  "'r externals \<Rightarrow> 'r exchange \<Rightarrow> AttributePath list \<Rightarrow> DecodedAttributeReportValue list async"
where
  "getMultipleAttributes ext ex attrs =
     withMessenger (processReadRequest ext ex
       \<lparr>attributes = attrs, interactionModelRevision = 1, isFabricFiltered = True\<rparr>)"

definition getAllAttributes ::
  "'r externals \<Rightarrow> 'r exchange \<Rightarrow> DecodedAttributeReportValue list async"
where
  "getAllAttributes ext ex =
     getMultipleAttributes ext ex
       [\<lparr>nodeId = None, endpointId = None, clusterId = None, attributeId = None\<rparr>]"

text \<open>The object literal \<^verbatim>\<open>{ endpointId, clusterId, attributeId }\<close>.\<close>

definition pathOf :: "nat option \<Rightarrow> nat option \<Rightarrow> nat option \<Rightarrow> AttributePath" where
  "pathOf e c a = \<lparr>nodeId = None, endpointId = e, clusterId = c, attributeId = a\<rparr>"

definition get :: "'r externals \<Rightarrow> 'r exchange \<Rightarrow> nat \<Rightarrow> nat \<Rightarrow> Attribute \<Rightarrow> jsval option async" where
  "get ext ex eid cid attribute st =
     (case subscribedLocalValues st
             (attributePathToId ext (pathOf (Some eid) (Some cid) (Some (attribute_id attribute)))) of
        Some localValue \<Rightarrow> Some (Inr (Some (cached_value localValue)), st)
      | None \<Rightarrow>
          (case getMultipleAttributes ext ex
                  [pathOf (Some eid) (Some cid) (Some (attribute_id attribute))] st of
             None \<Rightarrow> None
           | Some (Inl e, st') \<Rightarrow> Some (Inl e, st')
           | Some (Inr response, st') \<Rightarrow>
               (case response of
                  [] \<Rightarrow> Some (Inr None, st')
                | [r] \<Rightarrow> Some (Inr (decoded_value r), st')
                | _ \<Rightarrow> Some (Inl MoreThanOneAttribute, st'))))"

subsection \<open>Writing\<close>

definition writeRequestOf :: "'r externals \<Rightarrow> AttributeWrite \<Rightarrow> error + WriteRequestEntry" where
  "writeRequestOf ext w =
     (case encodeTlv ext (attribute_schema (write_attribute w)) (write_value w) of
        Inl e \<Rightarrow> Inl e
      | Inr d \<Rightarrow>
          Inr \<lparr>wr_path = pathOf (Some (write_endpointId w)) (Some (write_clusterId w))
                            (Some (attribute_id (write_attribute w))),
               wr_data = d, wr_dataVersion = write_dataVersion w\<rparr>)"

text \<open>
  The callback of \<^verbatim>\<open>flatMap\<close>: the status is \<^verbatim>\<open>status ?? clusterStatus ?? StatusCode.Failure\<close>.
\<close>

definition attributeStatusOf :: "WriteResponseEntry \<Rightarrow> AttributeStatus" where
  "attributeStatusOf r =
     \<lparr>as_path = \<lparr>nodeId = nodeId (wre_path r), endpointId = endpointId (wre_path r),
                  clusterId = clusterId (wre_path r), attributeId = attributeId (wre_path r)\<rparr>,
      as_status = (case wre_status r of
                     Some s \<Rightarrow> s
                   | None \<Rightarrow> (case wre_clusterStatus r of Some c \<Rightarrow> c | None \<Rightarrow> Failure))\<rparr>"

text \<open>
  \<^verbatim>\<open>Array.prototype.flatMap\<close> with a callback that returns a single object, not an array:
  each result is kept as one element.
\<close>

definition flatMap :: "('a \<Rightarrow> 'b) \<Rightarrow> 'a list \<Rightarrow> 'b list" where
  "flatMap f xs = concat (map (\<lambda>x. [f x]) xs)"

definition setMultipleAttributes ::
  "'r externals \<Rightarrow> 'r exchange \<Rightarrow> AttributeWrite list \<Rightarrow> AttributeStatus list async"
where
  "setMultipleAttributes ext ex attrs =
     withMessenger (\<lambda>st.
       case mapE (writeRequestOf ext) attrs of
         Inl e \<Rightarrow> Some (Inl e, st)
       | Inr wrs \<Rightarrow>
           (case sendWriteCommand ex
                   \<lparr>w_suppressResponse = False, w_timedRequest = False, writeRequests = wrs,
                    w_moreChunkedMessages = False, w_interactionModelRevision = 1\<rparr> st of
              (Inl e, st') \<Rightarrow> Some (Inl e, st')
            | (Inr None, st') \<Rightarrow> Some (Inl NoResponseReceived, st')
            | (Inr (Some response), st') \<Rightarrow>
                Some (Inr (filter (\<lambda>s. as_status s \<noteq> Success)
                             (flatMap attributeStatusOf (writeResponses response))), st')))"

text \<open>
  \<^verbatim>\<open>set\<close>. The test \<^verbatim>\<open>status !== undefined\<close> is always true for an \<^verbatim>\<open>AttributeStatus\<close>,
  whose status is not optional.
\<close>

definition set_attribute ::
  "'r externals \<Rightarrow> 'r exchange \<Rightarrow> nat \<Rightarrow> nat \<Rightarrow> Attribute \<Rightarrow> jsval \<Rightarrow> nat option \<Rightarrow> unit async"
where
  "set_attribute ext ex eid cid attribute v dataVersion st =
     (case setMultipleAttributes ext ex
             [\<lparr>write_endpointId = eid, write_clusterId = cid, write_attribute = attribute,
               write_value = v, write_dataVersion = dataVersion\<rparr>] st of
        None \<Rightarrow> None
      | Some (Inl e, st') \<Rightarrow> Some (Inl e, st')
      | Some (Inr response, st') \<Rightarrow>
          (case response of
             [] \<Rightarrow> Some (Inr (), st')
           | r # rest \<Rightarrow>
               if as_status r \<noteq> Success
               then Some (Inl (StatusResponseError (as_path r) (as_status r)), st')
               else Some (Inr (), st')))"

subsection \<open>Subscribing\<close>

text \<open>\<^verbatim>\<open>this.subscribedLocalValues.set(attributePathToId({...}), { value, version })\<close>.\<close>

definition cacheSet :: "'r externals \<Rightarrow> DecodedAttributeReportValue \<Rightarrow> jsval \<Rightarrow> client \<Rightarrow> client" where
  "cacheSet ext d v st =
     st\<lparr>subscribedLocalValues :=
          (subscribedLocalValues st)
            (attributePathToId ext
               (pathOf (endpointId (path d)) (clusterId (path d)) (attributeId (path d)))
             \<mapsto> \<lparr>cached_value = v, cached_version = Some (version d)\<rparr>)\<rparr>"

text \<open>\<^verbatim>\<open>listener?.(value, version)\<close> and \<^verbatim>\<open>listener?.(data)\<close>: the call is made, then it may throw.\<close>

definition callListener ::
  "(jsval \<Rightarrow> nat \<Rightarrow> error option) option \<Rightarrow> jsval \<Rightarrow> nat \<Rightarrow> client \<Rightarrow> (error + unit) \<times> client"
where
  "callListener l v ver st =
     (case l of
        None \<Rightarrow> (Inr (), st)
      | Some f \<Rightarrow>
          (case f v ver of
             None \<Rightarrow> (Inr (), emit (ListenerCalled v ver) st)
           | Some e \<Rightarrow> (Inl e, emit (ListenerCalled v ver) st)))"

definition callListenerWith ::
  "(DecodedAttributeReportValue \<Rightarrow> error option) option \<Rightarrow> DecodedAttributeReportValue \<Rightarrow>
     client \<Rightarrow> (error + unit) \<times> client"
where
  "callListenerWith l d st =
     (case l of
        None \<Rightarrow> (Inr (), st)
      | Some f \<Rightarrow>
          (case f d of
             None \<Rightarrow> (Inr (), emit (ListenerCalledWith d) st)
           | Some e \<Rightarrow> (Inl e, emit (ListenerCalledWith d) st)))"

text \<open>The \<^verbatim>\<open>subscriptionListener\<close> closure of \<^verbatim>\<open>subscribe\<close>.\<close>

definition subscribe_subscriptionListener ::
  "'r externals \<Rightarrow> (jsval \<Rightarrow> nat \<Rightarrow> error option) option \<Rightarrow> 'r DataReport \<Rightarrow>
     client \<Rightarrow> (error + unit) \<times> client"
where
  "subscribe_subscriptionListener ext l dataReport st =
     (case report_values dataReport of
        None \<Rightarrow> (Inr (), emit (LoggerDebug ''Subscription result empty'') st)
      | Some [] \<Rightarrow> (Inr (), emit (LoggerDebug ''Subscription result empty'') st)
      | Some (r # rs) \<Rightarrow>
          (case normalizeAndDecodeReadAttributeReport ext (r # rs) of
             Inl e \<Rightarrow> (Inl e, st)
           | Inr [] \<Rightarrow> (Inl SubscriptionNoValue, st)
           | Inr [d] \<Rightarrow>
               (case decoded_value d of
                  None \<Rightarrow> (Inl SubscriptionUndefinedValue, st)
                | Some v \<Rightarrow> callListener l v (version d) (cacheSet ext d v st))
           | Inr (d # d' # ds) \<Rightarrow> (Inl MoreThanOneAttribute, st)))"

text \<open>The body of \<^verbatim>\<open>values.forEach\<close> in \<^verbatim>\<open>subscribeMultipleAttributes\<close>, entry by entry.\<close>

fun forEach_value ::
  "'r externals \<Rightarrow> (DecodedAttributeReportValue \<Rightarrow> error option) option \<Rightarrow>
     DecodedAttributeReportValue list \<Rightarrow> client \<Rightarrow> (error + unit) \<times> client"
where
  "forEach_value ext l [] st = (Inr (), st)"
| "forEach_value ext l (d # ds) st =
     (case decoded_value d of
        None \<Rightarrow> (Inl SubscriptionUndefinedValue, st)
      | Some v \<Rightarrow>
          (case callListenerWith l d (cacheSet ext d v st) of
             (Inl e, st') \<Rightarrow> (Inl e, st')
           | (Inr u, st') \<Rightarrow> forEach_value ext l ds st'))"

text \<open>The \<^verbatim>\<open>subscriptionListener\<close> closure of \<^verbatim>\<open>subscribeMultipleAttributes\<close>.\<close>

definition subscribeMultipleAttributes_subscriptionListener ::
  "'r externals \<Rightarrow> (DecodedAttributeReportValue \<Rightarrow> error option) option \<Rightarrow> 'r DataReport \<Rightarrow>
     client \<Rightarrow> (error + unit) \<times> client"
where
  "subscribeMultipleAttributes_subscriptionListener ext l dataReport st =
     (case report_values dataReport of
        None \<Rightarrow> (Inr (), emit (LoggerDebug ''Subscription result empty'') st)
      | Some [] \<Rightarrow> (Inr (), emit (LoggerDebug ''Subscription result empty'') st)
      | Some (r # rs) \<Rightarrow>
          (case normalizeAndDecodeReadAttributeReport ext (r # rs) of
             Inl e \<Rightarrow> (Inl e, st)
           | Inr ds \<Rightarrow> forEach_value ext l ds st))"

text \<open>Calling a stored closure.\<close>

fun invokeListener ::
  "'r externals \<Rightarrow> listener \<Rightarrow> 'r DataReport \<Rightarrow> client \<Rightarrow> (error + unit) \<times> client"
where
  "invokeListener ext (SubscribeListener l) dataReport st =
     subscribe_subscriptionListener ext l dataReport st"
| "invokeListener ext (SubscribeMultipleListener l) dataReport st =
     subscribeMultipleAttributes_subscriptionListener ext l dataReport st"

definition subscribe ::
  "'r externals \<Rightarrow> 'r exchange \<Rightarrow> nat \<Rightarrow> nat \<Rightarrow> Attribute \<Rightarrow> nat \<Rightarrow> nat \<Rightarrow>
     (jsval \<Rightarrow> nat \<Rightarrow> error option) option \<Rightarrow> unit async"
where
  "subscribe ext ex eid cid attribute minFloor maxCeiling l =
     withMessenger (\<lambda>st.
       case sendSubscribeRequest ex
              \<lparr>attributeRequests = [pathOf (Some eid) (Some cid) (Some (attribute_id attribute))],
               keepSubscriptions = True, minIntervalFloorSeconds = minFloor,
               maxIntervalCeilingSeconds = maxCeiling, s_isFabricFiltered = True\<rparr> st of
         (Inl e, st') \<Rightarrow> Some (Inl e, st')
       | (Inr (report, sid), st') \<Rightarrow>
           Some (invokeListener ext (SubscribeListener l) report
                   (st'\<lparr>subscriptionListeners :=
                          (subscriptionListeners st')(sid \<mapsto> SubscribeListener l)\<rparr>)))"

definition subscribeMultipleAttributes ::
  "'r externals \<Rightarrow> 'r exchange \<Rightarrow> AttributePath list \<Rightarrow> nat \<Rightarrow> nat \<Rightarrow>
     (DecodedAttributeReportValue \<Rightarrow> error option) option \<Rightarrow> unit async"
where
  "subscribeMultipleAttributes ext ex requests minFloor maxCeiling l =
     withMessenger (\<lambda>st.
       case sendSubscribeRequest ex
              \<lparr>attributeRequests = requests,
               keepSubscriptions = True, minIntervalFloorSeconds = minFloor,
               maxIntervalCeilingSeconds = maxCeiling, s_isFabricFiltered = True\<rparr> st of
         (Inl e, st') \<Rightarrow> Some (Inl e, st')
       | (Inr (report, sid), st') \<Rightarrow>
           Some (invokeListener ext (SubscribeMultipleListener l) report
                   (st'\<lparr>subscriptionListeners :=
                          (subscriptionListeners st')(sid \<mapsto> SubscribeMultipleListener l)\<rparr>)))"

subsection \<open>The subscription receiver\<close>

text \<open>
  \<^verbatim>\<open>SubscriptionClient.onNewExchange\<close>, on the listener map it shares with the client. The
  function has no \<^verbatim>\<open>try\<close> and no logger call: whatever the listener throws is what the
  function rejects with.
\<close>

definition SubscriptionClient_onNewExchange ::
  "'r externals \<Rightarrow> 'r exchange \<Rightarrow> client \<Rightarrow> (error + unit) \<times> client"
where
  "SubscriptionClient_onNewExchange ext ex st =
     (case readDataReport ex 0 (emit MessengerCreated st) of
        (Inl e, st1) \<Rightarrow> (Inl e, st1)
      | (Inr dataReport, st1) \<Rightarrow>
          (case subscriptionId dataReport of
             None \<Rightarrow>
               (case sendStatus ex 1 InvalidSubscription st1 of
                  (Inl e, st2) \<Rightarrow> (Inl e, st2)
                | (Inr u, st2) \<Rightarrow> (Inl DataReportWithoutSubscriptionId, st2))
           | Some sid \<Rightarrow>
               (case subscriptionListeners st1 sid of
                  None \<Rightarrow>
                    (case sendStatus ex 1 InvalidSubscription st1 of
                       (Inl e, st2) \<Rightarrow> (Inl e, st2)
                     | (Inr u, st2) \<Rightarrow> (Inl (UnknownSubscriptionId sid), st2))
                | Some listener \<Rightarrow>
                    (case sendStatus ex 1 Success st1 of
                       (Inl e, st2) \<Rightarrow> (Inl e, st2)
                     | (Inr u, st2) \<Rightarrow> invokeListener ext listener dataReport st2))))"

subsection \<open>Invoking\<close>

definition invoke ::
  "'r externals \<Rightarrow> 'r exchange \<Rightarrow> nat \<Rightarrow> nat \<Rightarrow> jsval \<Rightarrow> nat \<Rightarrow> TlvSchema \<Rightarrow> nat \<Rightarrow> TlvSchema \<Rightarrow>
     bool \<Rightarrow> jsval option async"
where
  "invoke ext ex eid cid request commandId requestSchema responseId responseSchema optional =
     withMessenger (\<lambda>st.
       case encodeTlv ext requestSchema request of
         Inl e \<Rightarrow> Some (Inl e, st)
       | Inr args \<Rightarrow>
           (case sendInvokeCommand ex
                   \<lparr>invoke_endpointId = eid, invoke_clusterId = cid, invoke_commandId = commandId,
                    invoke_args = args, i_timedRequest = False, i_suppressResponse = False,
                    i_interactionModelRevision = 1\<rparr> st of
              (Inl e, st') \<Rightarrow> Some (Inl e, st')
            | (Inr None, st') \<Rightarrow> Some (Inl NoResponseReceived, st')
            | (Inr (Some invokeResponse), st') \<Rightarrow>
                (case responses invokeResponse of
                   [] \<Rightarrow> Some (Inl NoResponseReceived, st')
                 | first # rest \<Rightarrow>
                     (case ire_result first of
                        Some resultCode \<Rightarrow>
                          if resultCode \<noteq> ResultCode_Success
                          then Some (Inl (NonSuccessResult resultCode), st')
                          else if responseSchema \<noteq> TlvNoResponse
                          then Some (Inl ResponseExpected, st')
                          else Some (Inr None, st')
                      | None \<Rightarrow>
                          (case ire_response first of
                             Some response \<Rightarrow> Some (decodeTlv ext responseSchema response, st')
                           | None \<Rightarrow>
                               if optional then Some (Inr None, st')
                               else Some (Inl NoResultNorResponse, st'))))))"


section \<open>Secure session establishment\<close>

subsection \<open>Data\<close>

record Fabric =
  operationalCert :: ByteArray
  intermediateCACert :: "ByteArray option"
  operationalIdentityProtectionKey :: ByteArray

text \<open>The arguments of \<^verbatim>\<open>createSecureSession\<close>, which identify the session it returns.\<close>

record SecureSession =
  ss_sessionId :: nat
  ss_fabric :: "Fabric option"
  ss_peerNodeId :: nat
  ss_peerSessionId :: nat
  ss_sharedSecret :: ByteArray
  ss_salt :: ByteArray
  ss_isInitiator :: bool
  ss_isResumption :: bool
  ss_idleRetransTimeoutMs :: "nat option"
  ss_activeRetransTimeoutMs :: "nat option"

record ResumptionRecord =
  rr_peerNodeId :: nat
  rr_fabric :: Fabric
  rr_sharedSecret :: ByteArray
  rr_resumptionId :: ByteArray

record PbkdfParameters =
  iterations :: nat
  salt :: ByteArray

record PbkdfParamRequest =
  pbkdf_random :: ByteArray
  pbkdf_sessionId :: nat
  passcodeId :: nat
  hasPbkdfParameters :: bool

record PbkdfParamResponse =
  pbkdfParameters :: "PbkdfParameters option"
  peer_sessionId :: nat

record MrpParams =
  idleRetransTimeoutMs :: "nat option"
  activeRetransTimeoutMs :: "nat option"

record Sigma1 =
  s1_sessionId :: nat
  s1_resumptionId :: "ByteArray option"
  s1_resumeMic :: "ByteArray option"
  s1_destinationId :: ByteArray
  s1_random :: ByteArray
  s1_ecdhPublicKey :: ByteArray
  s1_mrpParams :: "MrpParams option"

record Sigma2Resume =
  s2r_resumptionId :: ByteArray
  s2r_resumeMic :: ByteArray
  s2r_sessionId :: nat

record Sigma2 =
  s2_random :: ByteArray
  s2_sessionId :: nat
  s2_ecdhPublicKey :: ByteArray
  s2_encrypted :: ByteArray
  s2_mrpParams :: "MrpParams option"

text \<open>
  What a handshake does to the outside world, in order. A message is recorded when the
  messenger accepted it; a session is alive from its creation until it is destroyed.
\<close>

datatype hs_event =
    HsMessengerCreated
  | HsMessengerClosed
  | SentPbkdfParamRequest PbkdfParamRequest
  | SentPasePake1 ByteArray
  | SentPasePake3 ByteArray
  | SentSigma2Resume Sigma2Resume
  | SentSigma2 Sigma2
  | SentSuccess
  | SentError
  | SecureSessionCreated SecureSession
  | SecureSessionDestroyed SecureSession
  | ResumptionRecordSaved ResumptionRecord
  | LoggerInfo string
  | LoggerError error

fun sessionsAlive_step :: "SecureSession list \<Rightarrow> hs_event \<Rightarrow> SecureSession list" where
  "sessionsAlive_step live (SecureSessionCreated s) = live @ [s]"
| "sessionsAlive_step live (SecureSessionDestroyed s) = removeAll s live"
| "sessionsAlive_step live ev = live"

definition sessionsAlive :: "hs_event list \<Rightarrow> SecureSession list" where
  "sessionsAlive tr = foldl sessionsAlive_step [] tr"

subsection \<open>Collaborators\<close>

text \<open>
  \<^verbatim>\<open>Crypto\<close>. The random sources return what the record says; \<^verbatim>\<open>hkdf\<close> (a promise),
  \<^verbatim>\<open>decrypt\<close> and \<^verbatim>\<open>verifySpki\<close> may throw. \<^verbatim>\<open>hash\<close> takes the list of its inputs.
\<close>

record crypto =
  getRandom :: ByteArray
  getRandomData :: "nat \<Rightarrow> ByteArray"
  hash :: "ByteArray list \<Rightarrow> ByteArray"
  hkdf :: "ByteArray \<Rightarrow> ByteArray \<Rightarrow> ByteArray \<Rightarrow> error + ByteArray"
  encrypt :: "ByteArray \<Rightarrow> ByteArray \<Rightarrow> ByteArray \<Rightarrow> ByteArray"
  decrypt :: "ByteArray \<Rightarrow> ByteArray \<Rightarrow> ByteArray \<Rightarrow> error + ByteArray"
  ecdhGeneratePublicKeyAndSecret :: "ByteArray \<Rightarrow> ByteArray \<times> ByteArray"
  verifySpki :: "ByteArray \<Rightarrow> ByteArray \<Rightarrow> ByteArray \<Rightarrow> error option"

text \<open>
  \<^verbatim>\<open>Spake2p\<close>: \<open>computeX context w0\<close> is \<^verbatim>\<open>Spake2p.create(context, w0).computeX()\<close> and
  \<open>computeSecretAndVerifiersFromY context w0 w1 X Y\<close> the method of that name on the same
  object; the result is \<^verbatim>\<open>{ Ke, hAY, hBX }\<close>.
\<close>

record spake2p =
  computeW0W1 :: "PbkdfParameters \<Rightarrow> nat \<Rightarrow> error + (int \<times> int)"
  computeX :: "ByteArray \<Rightarrow> int \<Rightarrow> ByteArray"
  computeSecretAndVerifiersFromY ::
    "ByteArray \<Rightarrow> int \<Rightarrow> int \<Rightarrow> ByteArray \<Rightarrow> ByteArray \<Rightarrow> error + (ByteArray \<times> ByteArray \<times> ByteArray)"

record pase_constants =
  DEFAULT_PASSCODE_ID :: nat
  SPAKE_CONTEXT :: ByteArray
  UNDEFINED_NODE_ID :: nat

record case_constants =
  KDFSR1_KEY_INFO :: ByteArray
  KDFSR2_INFO :: ByteArray
  KDFSR2_KEY_INFO :: ByteArray
  KDFSR3_INFO :: ByteArray
  RESUME1_MIC_NONCE :: ByteArray
  RESUME2_MIC_NONCE :: ByteArray
  TBE_DATA2_NONCE :: ByteArray
  TBE_DATA3_NONCE :: ByteArray

text \<open>
  The TLV schemas of the CASE messages and the two methods of a fabric. Decoding and
  \<^verbatim>\<open>verifyCredentials\<close> may throw. \<open>TlvSignedData_encode\<close> takes \<^verbatim>\<open>nodeOpCert\<close>,
  \<^verbatim>\<open>intermediateCACert\<close>, \<^verbatim>\<open>ecdhPublicKey\<close>, \<^verbatim>\<open>peerEcdhPublicKey\<close>;
  \<open>TlvEncryptedDataSigma2_encode\<close> takes \<^verbatim>\<open>nodeOpCert\<close>, \<^verbatim>\<open>intermediateCACert\<close>,
  \<^verbatim>\<open>signature\<close>, \<^verbatim>\<open>resumptionId\<close>; \<open>TlvEncryptedDataSigma3_decode\<close> returns
  \<^verbatim>\<open>nodeOpCert\<close>, \<^verbatim>\<open>intermediateCACert\<close>, \<^verbatim>\<open>signature\<close>; \<open>TlvOperationalCertificate_decode\<close>
  returns \<^verbatim>\<open>ellipticCurvePublicKey\<close> and \<^verbatim>\<open>subject.nodeId\<close>.
\<close>

record case_codec =
  TlvSignedData_encode :: "ByteArray \<Rightarrow> ByteArray option \<Rightarrow> ByteArray \<Rightarrow> ByteArray \<Rightarrow> ByteArray"
  TlvEncryptedDataSigma2_encode ::
    "ByteArray \<Rightarrow> ByteArray option \<Rightarrow> ByteArray \<Rightarrow> ByteArray \<Rightarrow> ByteArray"
  TlvEncryptedDataSigma3_decode ::
    "ByteArray \<Rightarrow> error + (ByteArray \<times> ByteArray option \<times> ByteArray)"
  TlvOperationalCertificate_decode :: "ByteArray \<Rightarrow> error + (ByteArray \<times> nat)"
  fabric_sign :: "Fabric \<Rightarrow> ByteArray \<Rightarrow> ByteArray"
  verifyCredentials :: "Fabric \<Rightarrow> ByteArray \<Rightarrow> ByteArray option \<Rightarrow> error option"

text \<open>
  \<^verbatim>\<open>MatterController\<close> and \<^verbatim>\<open>MatterDevice\<close>, as far as the handshakes call them.
  \<^verbatim>\<open>findResumptionRecordById\<close> returns a reference to a record object (or nothing), not a
  copy of its fields.
\<close>

record controller =
  controller_getNextAvailableSessionId :: nat
  controller_createSecureSession_result :: "SecureSession \<Rightarrow> error option"

record device =
  getNextAvailableSessionId :: nat
  findResumptionRecordById :: "ByteArray \<Rightarrow> nat option"
  findFabricFromDestinationId :: "ByteArray \<Rightarrow> ByteArray \<Rightarrow> error + Fabric"
  createSecureSession_result :: "SecureSession \<Rightarrow> error option"

text \<open>The peer behind a \<^verbatim>\<open>PaseClientMessenger\<close>: the outcome of each messenger method.\<close>

record pase_peer =
  sendPbkdfParamRequest_result :: "PbkdfParamRequest \<Rightarrow> error + ByteArray"
  readPbkdfParamResponse_result :: "error + (ByteArray \<times> PbkdfParamResponse)"
  sendPasePake1_result :: "ByteArray \<Rightarrow> error option"
  readPasePake2_result :: "error + (ByteArray \<times> ByteArray)"
  sendPasePake3_result :: "ByteArray \<Rightarrow> error option"
  pase_waitForSuccess_result :: "error option"

text \<open>The peer behind a \<^verbatim>\<open>CaseServerMessenger\<close>.\<close>

record case_peer =
  readSigma1_result :: "error + (ByteArray \<times> Sigma1)"
  sendSigma2Resume_result :: "Sigma2Resume \<Rightarrow> error option"
  waitForSuccess_result :: "error option"
  sendSigma2_result :: "Sigma2 \<Rightarrow> error + ByteArray"
  readSigma3_result :: "error + (ByteArray \<times> ByteArray)"
  sendSuccess_result :: "error option"
  sendError_result :: "error option"

record case_env =
  env_crypto :: crypto
  env_constants :: case_constants
  env_codec :: case_codec
  env_device :: device
  env_peer :: case_peer

subsection \<open>Steps that may throw\<close>

type_synonym ('s, 'a) step = "'s \<Rightarrow> (error + 'a) \<times> 's"

definition returnE :: "'a \<Rightarrow> ('s, 'a) step" where
  "returnE x = (\<lambda>s. (Inr x, s))"

definition throwE :: "error \<Rightarrow> ('s, 'a) step" where
  "throwE e = (\<lambda>s. (Inl e, s))"

definition bindE :: "('s, 'a) step \<Rightarrow> ('a \<Rightarrow> ('s, 'b) step) \<Rightarrow> ('s, 'b) step" where
  "bindE m f = (\<lambda>s. case m s of (Inl e, s') \<Rightarrow> (Inl e, s') | (Inr x, s') \<Rightarrow> f x s')"

text \<open>\<^verbatim>\<open>try { m } catch (error) { h(error) }\<close>.\<close>

definition tryCatch :: "('s, 'a) step \<Rightarrow> (error \<Rightarrow> ('s, 'a) step) \<Rightarrow> ('s, 'a) step" where
  "tryCatch m h = (\<lambda>s. case m s of (Inl e, s') \<Rightarrow> h e s' | (Inr x, s') \<Rightarrow> (Inr x, s'))"

text \<open>A call into a collaborator that returns or throws and leaves no trace.\<close>

definition liftE :: "error + 'a \<Rightarrow> ('s, 'a) step" where
  "liftE r = (\<lambda>s. (r, s))"

definition checkE :: "error option \<Rightarrow> ('s, unit) step" where
  "checkE r = (case r of Some e \<Rightarrow> throwE e | None \<Rightarrow> returnE ())"

subsection \<open>The PASE client\<close>

text \<open>The state of a pairing is the trace of its events.\<close>

definition pase_event :: "hs_event \<Rightarrow> (hs_event list, unit) step" where
  "pase_event ev = (\<lambda>tr. (Inr (), tr @ [ev]))"

definition sendPbkdfParamRequest :: "pase_peer \<Rightarrow> PbkdfParamRequest \<Rightarrow> (hs_event list, ByteArray) step" where
  "sendPbkdfParamRequest peer request =
     (case sendPbkdfParamRequest_result peer request of
        Inl e \<Rightarrow> throwE e
      | Inr payload \<Rightarrow> bindE (pase_event (SentPbkdfParamRequest request)) (\<lambda>u. returnE payload))"

definition sendPasePake1 :: "pase_peer \<Rightarrow> ByteArray \<Rightarrow> (hs_event list, unit) step" where
  "sendPasePake1 peer x =
     (case sendPasePake1_result peer x of
        Some e \<Rightarrow> throwE e
      | None \<Rightarrow> pase_event (SentPasePake1 x))"

definition sendPasePake3 :: "pase_peer \<Rightarrow> ByteArray \<Rightarrow> (hs_event list, unit) step" where
  "sendPasePake3 peer verifier =
     (case sendPasePake3_result peer verifier of
        Some e \<Rightarrow> throwE e
      | None \<Rightarrow> pase_event (SentPasePake3 verifier))"

definition controller_createSecureSession ::
  "controller \<Rightarrow> SecureSession \<Rightarrow> (hs_event list, SecureSession) step"
where
  "controller_createSecureSession client session =
     (case controller_createSecureSession_result client session of
        Some e \<Rightarrow> throwE e
      | None \<Rightarrow> bindE (pase_event (SecureSessionCreated session)) (\<lambda>u. returnE session))"

definition pair ::
  "crypto \<Rightarrow> spake2p \<Rightarrow> pase_constants \<Rightarrow> controller \<Rightarrow> pase_peer \<Rightarrow> nat \<Rightarrow>
     (hs_event list, SecureSession) step"
where
  "pair cr sp k client peer setupPin =
     bindE (pase_event HsMessengerCreated) (\<lambda>u.
     let random = getRandom cr;
         sessionId = controller_getNextAvailableSessionId client
     in
     bindE (sendPbkdfParamRequest peer
              \<lparr>pbkdf_random = random, pbkdf_sessionId = sessionId,
               passcodeId = DEFAULT_PASSCODE_ID k, hasPbkdfParameters = False\<rparr>) (\<lambda>requestPayload.
     bindE (liftE (readPbkdfParamResponse_result peer)) (\<lambda>(responsePayload, response).
     case pbkdfParameters response of
       None \<Rightarrow> throwE MissingPbkdfParameters
     | Some params \<Rightarrow>
     bindE (liftE (computeW0W1 sp params setupPin)) (\<lambda>(w0, w1).
     let context = hash cr [SPAKE_CONTEXT k, requestPayload, responsePayload];
         X = computeX sp context w0
     in
     bindE (sendPasePake1 peer X) (\<lambda>u.
     bindE (liftE (readPasePake2_result peer)) (\<lambda>(Y, verifier).
     bindE (liftE (computeSecretAndVerifiersFromY sp context w0 w1 X Y)) (\<lambda>(Ke, hAY, hBX).
     if verifier \<noteq> hBX then throwE IncorrectKeyConfirmation
     else
     bindE (sendPasePake3 peer hAY) (\<lambda>u.
     bindE (checkE (pase_waitForSuccess_result peer)) (\<lambda>u.
     bindE (controller_createSecureSession client
              \<lparr>ss_sessionId = sessionId, ss_fabric = None, ss_peerNodeId = UNDEFINED_NODE_ID k,
               ss_peerSessionId = peer_sessionId response, ss_sharedSecret = Ke, ss_salt = [],
               ss_isInitiator = True, ss_isResumption = False,
               ss_idleRetransTimeoutMs = None, ss_activeRetransTimeoutMs = None\<rparr>) (\<lambda>secureSession.
     bindE (pase_event HsMessengerClosed) (\<lambda>u.
     bindE (pase_event (LoggerInfo ''Pase client: Paired successfully'')) (\<lambda>u.
     returnE secureSession))))))))))))"

subsection \<open>The CASE server\<close>

text \<open>
  The device side: the record objects reachable through \<^verbatim>\<open>findResumptionRecordById\<close>,
  by reference, and the trace of events. Assigning to a field of a record object changes
  the object in place.
\<close>

record server =
  resumptionRecords :: "nat \<Rightarrow> ResumptionRecord"
  events :: "hs_event list"

definition case_event :: "hs_event \<Rightarrow> (server, unit) step" where
  "case_event ev = (\<lambda>s. (Inr (), s\<lparr>events := events s @ [ev]\<rparr>))"

definition createSecureSession :: "device \<Rightarrow> SecureSession \<Rightarrow> (server, SecureSession) step" where
  "createSecureSession dev session =
     (case createSecureSession_result dev session of
        Some e \<Rightarrow> throwE e
      | None \<Rightarrow> bindE (case_event (SecureSessionCreated session)) (\<lambda>u. returnE session))"

definition sendSigma2Resume :: "case_peer \<Rightarrow> Sigma2Resume \<Rightarrow> (server, unit) step" where
  "sendSigma2Resume peer msg =
     (case sendSigma2Resume_result peer msg of
        Some e \<Rightarrow> throwE e
      | None \<Rightarrow> case_event (SentSigma2Resume msg))"

definition sendSigma2 :: "case_peer \<Rightarrow> Sigma2 \<Rightarrow> (server, ByteArray) step" where
  "sendSigma2 peer msg =
     (case sendSigma2_result peer msg of
        Inl e \<Rightarrow> throwE e
      | Inr sigma2Bytes \<Rightarrow> bindE (case_event (SentSigma2 msg)) (\<lambda>u. returnE sigma2Bytes))"

definition sendSuccess :: "case_peer \<Rightarrow> (server, unit) step" where
  "sendSuccess peer =
     (case sendSuccess_result peer of Some e \<Rightarrow> throwE e | None \<Rightarrow> case_event SentSuccess)"

definition sendError :: "case_peer \<Rightarrow> (server, unit) step" where
  "sendError peer =
     (case sendError_result peer of Some e \<Rightarrow> throwE e | None \<Rightarrow> case_event SentError)"

text \<open>\<^verbatim>\<open>resumptionRecord.resumptionId = resumptionId\<close> on the object behind the reference.\<close>

definition assignResumptionId :: "nat \<Rightarrow> ByteArray \<Rightarrow> (server, unit) step" where
  "assignResumptionId ref resumptionId =
     (\<lambda>s. (Inr (), s\<lparr>resumptionRecords :=
                        (resumptionRecords s)
                          (ref := (resumptionRecords s ref)\<lparr>rr_resumptionId := resumptionId\<rparr>)\<rparr>))"

text \<open>\<^verbatim>\<open>server.saveResumptionRecord(r)\<close>: the trace keeps the fields the object has at the call.\<close>

definition saveResumptionRecord :: "ResumptionRecord \<Rightarrow> (server, unit) step" where
  "saveResumptionRecord r = case_event (ResumptionRecordSaved r)"

text \<open>The first branch of the \<^verbatim>\<open>if\<close> in \<^verbatim>\<open>handleSigma1\<close>: resuming a previous session.\<close>

definition handleSigma1_resume ::
  "case_env \<Rightarrow> nat \<Rightarrow> ByteArray \<Rightarrow> Sigma1 \<Rightarrow> ByteArray \<Rightarrow> ByteArray \<Rightarrow> nat \<Rightarrow> (server, unit) step"
where
  "handleSigma1_resume env sessionId resumptionId sigma1 peerResumptionId peerResumeMic ref =
     (\<lambda>s0.
     (let cr = env_crypto env; k = env_constants env; peer = env_peer env;
          sharedSecret = rr_sharedSecret (resumptionRecords s0 ref);
          fabric = rr_fabric (resumptionRecords s0 ref);
          peerNodeId = rr_peerNodeId (resumptionRecords s0 ref);
          peerRandom = s1_random sigma1
      in
      bindE (liftE (hkdf cr sharedSecret (peerRandom @ peerResumptionId) (KDFSR1_KEY_INFO k)))
        (\<lambda>peerResumeKey.
      bindE (liftE (decrypt cr peerResumeKey peerResumeMic (RESUME1_MIC_NONCE k))) (\<lambda>plain.
      let secureSessionSalt = peerRandom @ peerResumptionId in
      bindE (createSecureSession (env_device env)
               \<lparr>ss_sessionId = sessionId, ss_fabric = Some fabric, ss_peerNodeId = peerNodeId,
                ss_peerSessionId = s1_sessionId sigma1, ss_sharedSecret = sharedSecret,
                ss_salt = secureSessionSalt, ss_isInitiator = False, ss_isResumption = True,
                ss_idleRetransTimeoutMs =
                  (case s1_mrpParams sigma1 of None \<Rightarrow> None | Some m \<Rightarrow> idleRetransTimeoutMs m),
                ss_activeRetransTimeoutMs =
                  (case s1_mrpParams sigma1 of None \<Rightarrow> None | Some m \<Rightarrow> activeRetransTimeoutMs m)\<rparr>)
        (\<lambda>secureSession.
      let resumeSalt = peerRandom @ resumptionId in
      bindE (liftE (hkdf cr sharedSecret resumeSalt (KDFSR2_KEY_INFO k))) (\<lambda>resumeKey.
      let resumeMic = encrypt cr resumeKey [] (RESUME2_MIC_NONCE k) in
      bindE (tryCatch
               (sendSigma2Resume peer
                  \<lparr>s2r_resumptionId = resumptionId, s2r_resumeMic = resumeMic,
                   s2r_sessionId = sessionId\<rparr>)
               (\<lambda>error. bindE (case_event (SecureSessionDestroyed secureSession))
                           (\<lambda>u. throwE error))) (\<lambda>u.
      bindE (case_event (LoggerInfo ''Case server: session resumed'')) (\<lambda>u.
      bindE (assignResumptionId ref resumptionId) (\<lambda>u.
      bindE (checkE (waitForSuccess_result peer)) (\<lambda>u.
      bindE (case_event HsMessengerClosed) (\<lambda>u.
      (\<lambda>s. saveResumptionRecord (resumptionRecords s ref) s))))))))))) s0)"

text \<open>The \<^verbatim>\<open>else\<close> branch: the full sigma2/sigma3 exchange.\<close>

definition handleSigma1_full ::
  "case_env \<Rightarrow> nat \<Rightarrow> ByteArray \<Rightarrow> ByteArray \<Rightarrow> ByteArray \<Rightarrow> Sigma1 \<Rightarrow> (server, unit) step"
where
  "handleSigma1_full env sessionId random resumptionId sigma1Bytes sigma1 =
     (let cr = env_crypto env; k = env_constants env; peer = env_peer env; tlv = env_codec env;
          peerRandom = s1_random sigma1; peerEcdhPublicKey = s1_ecdhPublicKey sigma1;
          mrpParams = s1_mrpParams sigma1
      in
      bindE (liftE (findFabricFromDestinationId (env_device env) (s1_destinationId sigma1) peerRandom))
        (\<lambda>fabric.
      let nodeOpCert = operationalCert fabric;
          ica = intermediateCACert fabric;
          ipk = operationalIdentityProtectionKey fabric;
          ecdhPublicKey = fst (ecdhGeneratePublicKeyAndSecret cr peerEcdhPublicKey);
          sharedSecret = snd (ecdhGeneratePublicKeyAndSecret cr peerEcdhPublicKey);
          sigma2Salt = ipk @ random @ ecdhPublicKey @ hash cr [sigma1Bytes]
      in
      bindE (liftE (hkdf cr sharedSecret sigma2Salt (KDFSR2_INFO k))) (\<lambda>sigma2Key.
      let signatureData = TlvSignedData_encode tlv nodeOpCert ica ecdhPublicKey peerEcdhPublicKey;
          signature = fabric_sign tlv fabric signatureData;
          encryptedData = TlvEncryptedDataSigma2_encode tlv nodeOpCert ica signature resumptionId;
          encrypted = encrypt cr sigma2Key encryptedData (TBE_DATA2_NONCE k)
      in
      bindE (sendSigma2 peer
               \<lparr>s2_random = random, s2_sessionId = sessionId, s2_ecdhPublicKey = ecdhPublicKey,
                s2_encrypted = encrypted, s2_mrpParams = mrpParams\<rparr>) (\<lambda>sigma2Bytes.
      bindE (liftE (readSigma3_result peer)) (\<lambda>(sigma3Bytes, peerEncrypted).
      let sigma3Salt = ipk @ hash cr [sigma1Bytes, sigma2Bytes] in
      bindE (liftE (hkdf cr sharedSecret sigma3Salt (KDFSR3_INFO k))) (\<lambda>sigma3Key.
      bindE (liftE (decrypt cr sigma3Key peerEncrypted (TBE_DATA3_NONCE k))) (\<lambda>peerEncryptedData.
      bindE (liftE (TlvEncryptedDataSigma3_decode tlv peerEncryptedData))
        (\<lambda>(peerNewOpCert, peerIntermediateCACert, peerSignature).
      bindE (checkE (verifyCredentials tlv fabric peerNewOpCert peerIntermediateCACert)) (\<lambda>u.
      let peerSignatureData =
            TlvSignedData_encode tlv peerNewOpCert peerIntermediateCACert peerEcdhPublicKey
              ecdhPublicKey
      in
      bindE (liftE (TlvOperationalCertificate_decode tlv peerNewOpCert))
        (\<lambda>(peerPublicKey, peerNodeId).
      bindE (checkE (verifySpki cr peerPublicKey peerSignatureData peerSignature)) (\<lambda>u.
      let secureSessionSalt = ipk @ hash cr [sigma1Bytes, sigma2Bytes, sigma3Bytes] in
      bindE (createSecureSession (env_device env)
               \<lparr>ss_sessionId = sessionId, ss_fabric = Some fabric, ss_peerNodeId = peerNodeId,
                ss_peerSessionId = s1_sessionId sigma1, ss_sharedSecret = sharedSecret,
                ss_salt = secureSessionSalt, ss_isInitiator = False, ss_isResumption = False,
                ss_idleRetransTimeoutMs =
                  (case mrpParams of None \<Rightarrow> None | Some m \<Rightarrow> idleRetransTimeoutMs m),
                ss_activeRetransTimeoutMs =
                  (case mrpParams of None \<Rightarrow> None | Some m \<Rightarrow> activeRetransTimeoutMs m)\<rparr>)
        (\<lambda>secureSession.
      bindE (case_event (LoggerInfo ''Case server: session created'')) (\<lambda>u.
      bindE (sendSuccess peer) (\<lambda>u.
      let resumptionRecord =
            \<lparr>rr_peerNodeId = peerNodeId, rr_fabric = fabric, rr_sharedSecret = sharedSecret,
             rr_resumptionId = resumptionId\<rparr>
      in
      bindE (case_event HsMessengerClosed) (\<lambda>u.
      saveResumptionRecord resumptionRecord)))))))))))))))"

definition handleSigma1 :: "case_env \<Rightarrow> (server, unit) step" where
  "handleSigma1 env =
     bindE (case_event (LoggerInfo ''Case server: Received pairing request'')) (\<lambda>u.
     let sessionId = getNextAvailableSessionId (env_device env);
         random = getRandom (env_crypto env)
     in
     bindE (liftE (readSigma1_result (env_peer env))) (\<lambda>(sigma1Bytes, sigma1).
     let resumptionId = getRandomData (env_crypto env) 16 in
     case s1_resumptionId sigma1 of
       None \<Rightarrow> handleSigma1_full env sessionId random resumptionId sigma1Bytes sigma1
     | Some peerResumptionId \<Rightarrow>
         (case s1_resumeMic sigma1 of
            None \<Rightarrow> handleSigma1_full env sessionId random resumptionId sigma1Bytes sigma1
          | Some peerResumeMic \<Rightarrow>
              (case findResumptionRecordById (env_device env) peerResumptionId of
                 None \<Rightarrow> handleSigma1_full env sessionId random resumptionId sigma1Bytes sigma1
               | Some ref \<Rightarrow>
                   handleSigma1_resume env sessionId resumptionId sigma1 peerResumptionId
                     peerResumeMic ref))))"

definition CaseServer_onNewExchange :: "case_env \<Rightarrow> (server, unit) step" where
  "CaseServer_onNewExchange env =
     bindE (case_event HsMessengerCreated) (\<lambda>u.
     tryCatch (handleSigma1 env)
       (\<lambda>error.
          bindE (case_event (LoggerError error)) (\<lambda>u. sendError (env_peer env))))"


section \<open>Notions used in the statements\<close>

text \<open>What one chunk contributes to the result of a read, and the status it is answered with.\<close>

definition valuesOf :: "'r DataReport \<Rightarrow> 'r list" where
  "valuesOf r = (case report_values r of None \<Rightarrow> [] | Some vs \<Rightarrow> vs)"

definition statusEvents :: "'r DataReport \<Rightarrow> event list" where
  "statusEvents r = (if truthy (suppressResponse r) then [] else [SentStatus Success])"

text \<open>
  The cache after the report entries \<open>ds\<close> have been stored one after the other on top of
  the map \<open>m\<close>: each entry with a defined value is written under the key of its path, a
  later entry for the same key replacing an earlier one.
\<close>

fun cachedEntries ::
  "'r externals \<Rightarrow> (string \<Rightarrow> CachedValue option) \<Rightarrow> DecodedAttributeReportValue list \<Rightarrow>
     (string \<Rightarrow> CachedValue option)"
where
  "cachedEntries ext m [] = m"
| "cachedEntries ext m (d # ds) =
     cachedEntries ext
       (case decoded_value d of
          None \<Rightarrow> m
        | Some v \<Rightarrow>
            m(attributePathToId ext
                \<lparr>nodeId = None, endpointId = endpointId (path d), clusterId = clusterId (path d),
                 attributeId = attributeId (path d)\<rparr>
              \<mapsto> \<lparr>cached_value = v, cached_version = Some (version d)\<rparr>))
       ds"

text \<open>
  The session the resume branch asks \<^verbatim>\<open>createSecureSession\<close> for and the
  \<^verbatim>\<open>Sigma2Resume\<close> it sends, as the source computes them.
\<close>

definition resume_session :: "case_env \<Rightarrow> server \<Rightarrow> Sigma1 \<Rightarrow> ByteArray \<Rightarrow> nat \<Rightarrow> SecureSession" where
  "resume_session env s sigma1 peerResumptionId ref =
     \<lparr>ss_sessionId = getNextAvailableSessionId (env_device env),
      ss_fabric = Some (rr_fabric (resumptionRecords s ref)),
      ss_peerNodeId = rr_peerNodeId (resumptionRecords s ref),
      ss_peerSessionId = s1_sessionId sigma1,
      ss_sharedSecret = rr_sharedSecret (resumptionRecords s ref),
      ss_salt = s1_random sigma1 @ peerResumptionId,
      ss_isInitiator = False, ss_isResumption = True,
      ss_idleRetransTimeoutMs =
        (case s1_mrpParams sigma1 of None \<Rightarrow> None | Some m \<Rightarrow> idleRetransTimeoutMs m),
      ss_activeRetransTimeoutMs =
        (case s1_mrpParams sigma1 of None \<Rightarrow> None | Some m \<Rightarrow> activeRetransTimeoutMs m)\<rparr>"

definition resume_reply :: "case_env \<Rightarrow> ByteArray \<Rightarrow> Sigma2Resume" where
  "resume_reply env resumeKey =
     \<lparr>s2r_resumptionId = getRandomData (env_crypto env) 16,
      s2r_resumeMic = encrypt (env_crypto env) resumeKey [] (RESUME2_MIC_NONCE (env_constants env)),
      s2r_sessionId = getNextAvailableSessionId (env_device env)\<rparr>"

text \<open>
  A resume handshake in which every step before \<^verbatim>\<open>waitForSuccess\<close> goes through: sigma1
  carries a resumption id and a MIC, the device finds a record, both key derivations
  settle, the MIC decrypts, the session is created and \<^verbatim>\<open>Sigma2Resume\<close> is accepted.
\<close>

definition resumeReachesWaitForSuccess ::
  "case_env \<Rightarrow> server \<Rightarrow> ByteArray \<Rightarrow> Sigma1 \<Rightarrow> ByteArray \<Rightarrow> ByteArray \<Rightarrow> nat \<Rightarrow> ByteArray \<Rightarrow>
     ByteArray \<Rightarrow> bool"
where
  "resumeReachesWaitForSuccess env s sigma1Bytes sigma1 peerResumptionId peerResumeMic ref
      peerResumeKey resumeKey \<longleftrightarrow>
     readSigma1_result (env_peer env) = Inr (sigma1Bytes, sigma1) \<and>
     s1_resumptionId sigma1 = Some peerResumptionId \<and>
     s1_resumeMic sigma1 = Some peerResumeMic \<and>
     findResumptionRecordById (env_device env) peerResumptionId = Some ref \<and>
     hkdf (env_crypto env) (rr_sharedSecret (resumptionRecords s ref))
       (s1_random sigma1 @ peerResumptionId) (KDFSR1_KEY_INFO (env_constants env)) =
       Inr peerResumeKey \<and>
     \<not> isl (decrypt (env_crypto env) peerResumeKey peerResumeMic
              (RESUME1_MIC_NONCE (env_constants env))) \<and>
     createSecureSession_result (env_device env)
       (resume_session env s sigma1 peerResumptionId ref) = None \<and>
     hkdf (env_crypto env) (rr_sharedSecret (resumptionRecords s ref))
       (s1_random sigma1 @ getRandomData (env_crypto env) 16)
       (KDFSR2_KEY_INFO (env_constants env)) = Inr resumeKey \<and>
     sendSigma2Resume_result (env_peer env) (resume_reply env resumeKey) = None"


definition newEvents :: "server \<Rightarrow> server \<Rightarrow> hs_event list" where
  "newEvents s s' = drop (length (events s)) (events s')"




section \<open>Scenarios\<close>

text \<open>
  Small concrete collaborators on which the statements below are exercised. The raw
  attribute report is a number; the toy decoder turns \<open>n\<close> into the value \<open>n\<close> of attribute
  \<open>n\<close> on endpoint 1, cluster 6, except that 99 decodes to an entry with an undefined value.
\<close>

definition toy_decode :: "nat \<Rightarrow> DecodedAttributeReportValue" where
  "toy_decode n =
     \<lparr>path = pathOf (Some 1) (Some 6) (Some n), version = 7,
      decoded_value = (if n = 99 then None else Some (JNum (int n)))\<rparr>"

definition toy_externals :: "nat externals" where
  "toy_externals =
     \<lparr>normalizeAndDecodeReadAttributeReport = (\<lambda>rs. Inr (map toy_decode rs)),
      attributePathToId =
        (\<lambda>p. if attributeId p = Some 0 then ''1/6/0''
              else if attributeId p = Some 1 then ''1/6/1'' else ''other''),
      encodeTlv = (\<lambda>schema v. case v of JNum n \<Rightarrow> Inr [word_of_int n]
                                | _ \<Rightarrow> Inl (External ''encode'')),
      decodeTlv = (\<lambda>schema bytes. Inr (Some (JNum (int (length bytes)))))\<rparr>"

definition chunk :: "nat list \<Rightarrow> bool \<Rightarrow> bool option \<Rightarrow> nat DataReport" where
  "chunk vs moreChunks suppress =
     \<lparr>subscriptionId = None, report_values = Some vs, moreChunkedMessages = Some moreChunks,
      suppressResponse = suppress\<rparr>"

text \<open>
  A peer that answers a read with the chunks \<open>[1, 2]\<close>, \<open>[3]\<close> (response suppressed) and
  \<open>[4, 5]\<close>, a write with one success and two failures, a subscribe request with
  subscription 42 and a first report of attribute 0, and command 0 with a success result,
  any other command with a failure result.
\<close>

definition toy_exchange :: "nat exchange" where
  "toy_exchange =
     \<lparr>sendReadRequest_result = (\<lambda>request. Inr (chunk [1, 2] True None)),
      readDataReport_result =
        (\<lambda>n. if n = 0 then Inr (chunk [3] True (Some True))
              else if n = 1 then Inr (chunk [4, 5] False None)
              else Inl (External ''Timeout'')),
      sendStatus_result = (\<lambda>n code. None),
      sendWriteCommand_result =
        (\<lambda>request. Inr (Some \<lparr>writeResponses =
           [\<lparr>wre_status = Some Success, wre_clusterStatus = None,
             wre_path = pathOf (Some 1) (Some 6) (Some 0)\<rparr>,
            \<lparr>wre_status = None, wre_clusterStatus = Some (OtherStatus 135),
             wre_path = pathOf (Some 1) (Some 6) (Some 1)\<rparr>,
            \<lparr>wre_status = None, wre_clusterStatus = None,
             wre_path = pathOf (Some 1) (Some 6) (Some 2)\<rparr>]\<rparr>)),
      sendSubscribeRequest_result =
        (\<lambda>request. Inr (\<lparr>subscriptionId = Some 42, report_values = Some [0],
                          moreChunkedMessages = None, suppressResponse = None\<rparr>, 42)),
      sendInvokeCommand_result =
        (\<lambda>request. Inr (Some \<lparr>responses =
           [\<lparr>ire_response = None,
             ire_result = Some (if invoke_commandId request = 0 then ResultCode_Success
                                else ResultCode_Other 1)\<rparr>]\<rparr>))\<rparr>"

text \<open>An inbound exchange carrying one report for subscription 42 with the raw values \<open>vs\<close>.\<close>

definition incoming_exchange :: "nat list \<Rightarrow> nat exchange" where
  "incoming_exchange vs =
     toy_exchange\<lparr>readDataReport_result :=
       (\<lambda>n. Inr \<lparr>subscriptionId = Some 42, report_values = Some vs,
                  moreChunkedMessages = None, suppressResponse = None\<rparr>)\<rparr>"

definition client0 :: client where
  "client0 = \<lparr>subscriptionListeners = Map.empty, subscribedLocalValues = Map.empty, trace = []\<rparr>"

text \<open>A client on which \<^verbatim>\<open>subscribe\<close> has registered a listener (no user callback) as 42.\<close>

definition client42 :: client where
  "client42 = client0\<lparr>subscriptionListeners := [42 \<mapsto> SubscribeListener None]\<rparr>"

text \<open>A client whose cache already holds a value under the key \<open>''other''\<close>.\<close>

definition client_cached :: client where
  "client_cached =
     client0\<lparr>subscribedLocalValues :=
       [''other'' \<mapsto> \<lparr>cached_value = JBool True, cached_version = None\<rparr>]\<rparr>"

text \<open>
  Toy cryptography: key derivation and encryption concatenate, decryption accepts exactly
  the key followed by the nonce, verification accepts everything.
\<close>

definition toy_crypto :: crypto where
  "toy_crypto =
     \<lparr>getRandom = [10, 11],
      getRandomData = (\<lambda>n. replicate n 171),
      hash = concat,
      hkdf = (\<lambda>ikm slt info. Inr (ikm @ slt @ info)),
      encrypt = (\<lambda>key plain nonce. key @ plain @ nonce),
      decrypt = (\<lambda>key cipher nonce. if cipher = key @ nonce then Inr []
                                      else Inl (External ''decrypt'')),
      ecdhGeneratePublicKeyAndSecret = (\<lambda>peerKey. ([14], 15 # peerKey)),
      verifySpki = (\<lambda>key signed signature. None)\<rparr>"

definition toy_spake2p :: spake2p where
  "toy_spake2p =
     \<lparr>computeW0W1 = (\<lambda>params pin. Inr (int pin, int pin + 1)),
      computeX = (\<lambda>context w0. [33]),
      computeSecretAndVerifiersFromY = (\<lambda>context w0 w1 X Y. Inr ([1], [2], [3]))\<rparr>"

definition toy_pase_constants :: pase_constants where
  "toy_pase_constants = \<lparr>DEFAULT_PASSCODE_ID = 0, SPAKE_CONTEXT = [67], UNDEFINED_NODE_ID = 0\<rparr>"

definition toy_controller :: controller where
  "toy_controller =
     \<lparr>controller_getNextAvailableSessionId = 1,
      controller_createSecureSession_result = (\<lambda>session. None)\<rparr>"

text \<open>Scenario S2: the peer's \<^verbatim>\<open>Pake2\<close> carries the verifier \<open>[4]\<close> where \<open>hBX\<close> is \<open>[3]\<close>.\<close>

definition S2_peer :: pase_peer where
  "S2_peer =
     \<lparr>sendPbkdfParamRequest_result = (\<lambda>request. Inr [16]),
      readPbkdfParamResponse_result =
        Inr ([32], \<lparr>pbkdfParameters = Some \<lparr>iterations = 1000, salt = [0, 1, 2, 3, 4, 5, 6, 7]\<rparr>,
                    peer_sessionId = 2\<rparr>),
      sendPasePake1_result = (\<lambda>x. None),
      readPasePake2_result = Inr ([48], [4]),
      sendPasePake3_result = (\<lambda>verifier. None),
      pase_waitForSuccess_result = None\<rparr>"

definition toy_case_constants :: case_constants where
  "toy_case_constants =
     \<lparr>KDFSR1_KEY_INFO = [81], KDFSR2_INFO = [82], KDFSR2_KEY_INFO = [83], KDFSR3_INFO = [84],
      RESUME1_MIC_NONCE = [91], RESUME2_MIC_NONCE = [92], TBE_DATA2_NONCE = [93],
      TBE_DATA3_NONCE = [94]\<rparr>"

definition toy_codec :: case_codec where
  "toy_codec =
     \<lparr>TlvSignedData_encode = (\<lambda>cert ica key peerKey. cert @ key @ peerKey),
      TlvEncryptedDataSigma2_encode = (\<lambda>cert ica signature rid. cert @ signature @ rid),
      TlvEncryptedDataSigma3_decode = (\<lambda>bytes. Inr (bytes, None, [7])),
      TlvOperationalCertificate_decode = (\<lambda>cert. Inr ([8], 5)),
      fabric_sign = (\<lambda>fabric bytes. [9]),
      verifyCredentials = (\<lambda>fabric cert ica. None)\<rparr>"

definition toy_fabric :: Fabric where
  "toy_fabric =
     \<lparr>operationalCert = [192], intermediateCACert = None,
      operationalIdentityProtectionKey = [31]\<rparr>"

text \<open>
  Scenario S3: the device holds, behind reference 0, the record with resumption id \<open>[1]\<close>
  and shared secret \<open>[85]\<close>; sigma1 asks to resume it with a valid MIC.
\<close>

definition S3_server :: server where
  "S3_server =
     \<lparr>resumptionRecords =
        (\<lambda>ref. \<lparr>rr_peerNodeId = 5, rr_fabric = toy_fabric, rr_sharedSecret = [85],
                 rr_resumptionId = [1]\<rparr>),
      events = []\<rparr>"

definition toy_device :: device where
  "toy_device =
     \<lparr>getNextAvailableSessionId = 7,
      findResumptionRecordById = (\<lambda>rid. if rid = [1] then Some 0 else None),
      findFabricFromDestinationId = (\<lambda>destinationId peerRandom. Inr toy_fabric),
      createSecureSession_result = (\<lambda>session. None)\<rparr>"

definition S3_sigma1 :: Sigma1 where
  "S3_sigma1 =
     \<lparr>s1_sessionId = 9, s1_resumptionId = Some [1], s1_resumeMic = Some [85, 10, 1, 81, 91],
      s1_destinationId = [13], s1_random = [10], s1_ecdhPublicKey = [14], s1_mrpParams = None\<rparr>"

text \<open>The peer of S3; the argument is what \<^verbatim>\<open>waitForSuccess\<close> settles with.\<close>

definition S3_peer :: "error option \<Rightarrow> case_peer" where
  "S3_peer confirmation =
     \<lparr>readSigma1_result = Inr ([49], S3_sigma1),
      sendSigma2Resume_result = (\<lambda>msg. None),
      waitForSuccess_result = confirmation,
      sendSigma2_result = (\<lambda>msg. Inr [50]),
      readSigma3_result = Inr ([51], [15, 14, 31, 49, 50, 84, 94]),
      sendSuccess_result = None,
      sendError_result = None\<rparr>"

definition S3_env :: "error option \<Rightarrow> case_env" where
  "S3_env confirmation =
     \<lparr>env_crypto = toy_crypto, env_constants = toy_case_constants, env_codec = toy_codec,
      env_device = toy_device, env_peer = S3_peer confirmation\<rparr>"




section \<open>Reading in chunks\<close>

lemma acc_valuesOf:
  "(case report_values r of None \<Rightarrow> acc | Some vs \<Rightarrow> acc @ vs) = acc @ valuesOf r"
  by (simp add: valuesOf_def split: option.splits)

lemma loop_chunks:
  "\<lbrakk> \<forall>i<length rest. readDataReport_result ex (n + i) = Inr (rest ! i);
     \<forall>i<length rest. truthy (moreChunkedMessages ((r # rest) ! i));
     \<not> truthy (moreChunkedMessages (last (r # rest)));
     \<forall>i\<le>length rest. \<not> truthy (suppressResponse ((r # rest) ! i)) \<longrightarrow>
        sendStatus_result ex (n + i) Success = None \<rbrakk>
   \<Longrightarrow> processReadRequest_loop ex n r acc st =
        Some (Inr (acc @ concat (map valuesOf (r # rest))),
              st\<lparr>trace := trace st @ statusEvents r @
                    concat (map (\<lambda>c. ReceivedDataReport # statusEvents c) rest)\<rparr>)"
proof (induction rest arbitrary: n r acc st)
  case Nil
  then show ?case
    by (subst processReadRequest_loop.simps)
       (auto simp: acc_valuesOf statusEvents_def sendStatus_def emit_def)
next
  case (Cons r' rest')
  have rd: "readDataReport_result ex n = Inr r'"
    using Cons.prems(1) by (auto dest: spec[where x=0])
  have flag: "truthy (moreChunkedMessages r)"
    using Cons.prems(2) by (auto dest: spec[where x=0])
  have st0: "\<not> truthy (suppressResponse r) \<longrightarrow> sendStatus_result ex n Success = None"
    using Cons.prems(4) by (auto dest: spec[where x=0])
  have p1: "\<forall>i<length rest'. readDataReport_result ex (Suc n + i) = Inr (rest' ! i)"
  proof (intro allI impI)
    fix i assume "i < length rest'"
    then have "Suc i < length (r' # rest')" by simp
    with Cons.prems(1) have "readDataReport_result ex (n + Suc i) = Inr ((r' # rest') ! Suc i)"
      by blast
    then show "readDataReport_result ex (Suc n + i) = Inr (rest' ! i)" by simp
  qed
  have p2: "\<forall>i<length rest'. truthy (moreChunkedMessages ((r' # rest') ! i))"
  proof (intro allI impI)
    fix i assume "i < length rest'"
    then have "Suc i < length (r' # rest')" by simp
    with Cons.prems(2) have "truthy (moreChunkedMessages ((r # r' # rest') ! Suc i))" by blast
    then show "truthy (moreChunkedMessages ((r' # rest') ! i))" by simp
  qed
  have p3: "\<not> truthy (moreChunkedMessages (last (r' # rest')))"
    using Cons.prems(3) by simp
  have p4: "\<forall>i\<le>length rest'. \<not> truthy (suppressResponse ((r' # rest') ! i)) \<longrightarrow>
              sendStatus_result ex (Suc n + i) Success = None"
  proof (intro allI impI)
    fix i assume a: "i \<le> length rest'" "\<not> truthy (suppressResponse ((r' # rest') ! i))"
    then have "Suc i \<le> length (r' # rest')" by simp
    with Cons.prems(4) a(2) have "sendStatus_result ex (n + Suc i) Success = None"
      by (metis nth_Cons_Suc)
    then show "sendStatus_result ex (Suc n + i) Success = None" by simp
  qed
  note IH = Cons.IH[OF p1 p2 p3 p4]
  show ?case
    by (subst processReadRequest_loop.simps)
       (use rd flag st0 in \<open>auto simp: IH acc_valuesOf statusEvents_def sendStatus_def
          readDataReport_def emit_def\<close>)
qed

text \<open>
  \<^bold>\<open>C4.\<close> A chunked read: the peer answers the read request with the report \<open>r\<close> and each
  further \<^verbatim>\<open>readDataReport\<close> with the next report of \<open>rest\<close>; every report but the last
  has \<^verbatim>\<open>moreChunkedMessages\<close> set and the last has it clear; the status sends that are
  attempted go through. Then \<^verbatim>\<open>processReadRequest\<close> settles with the decoder applied to
  the concatenation of the chunks' value lists in receipt order, and what it adds to the
  trace is the read request and then, for each chunk in order, its receipt followed by
  one \<^verbatim>\<open>Success\<close> status exactly when the chunk's \<^verbatim>\<open>suppressResponse\<close> is not true (the
  last chunk included).
\<close>

theorem C4_chunked_read:
  assumes "sendReadRequest_result ex request = Inr r"
      and "\<forall>i<length rest. readDataReport_result ex i = Inr (rest ! i)"
      and "\<forall>i<length rest. truthy (moreChunkedMessages ((r # rest) ! i))"
      and "\<not> truthy (moreChunkedMessages (last (r # rest)))"
      and "\<forall>i\<le>length rest. \<not> truthy (suppressResponse ((r # rest) ! i)) \<longrightarrow>
             sendStatus_result ex i Success = None"
  shows "processReadRequest ext ex request st =
           Some (normalizeAndDecodeReadAttributeReport ext (concat (map valuesOf (r # rest))),
                 st\<lparr>trace := trace st @ SentReadRequest request #
                       concat (map (\<lambda>c. ReceivedDataReport # statusEvents c) (r # rest))\<rparr>)"
proof -
  have "processReadRequest_loop ex 0 r []
          (emit ReceivedDataReport (emit (SentReadRequest request) st)) =
        Some (Inr ([] @ concat (map valuesOf (r # rest))),
              (emit ReceivedDataReport (emit (SentReadRequest request) st))
                \<lparr>trace := trace (emit ReceivedDataReport (emit (SentReadRequest request) st)) @
                   statusEvents r @ concat (map (\<lambda>c. ReceivedDataReport # statusEvents c) rest)\<rparr>)"
    by (rule loop_chunks) (use assms in simp_all)
  then show ?thesis
    using assms(1) by (simp add: processReadRequest_def sendReadRequest_def emit_def)
qed

theorem C4_chunked_read_witness:
  "processReadRequest toy_externals toy_exchange
     \<lparr>attributes = [pathOf None None None], interactionModelRevision = 1, isFabricFiltered = True\<rparr>
     client0 =
   Some (Inr (map toy_decode [1, 2, 3, 4, 5]),
         client0\<lparr>trace :=
           [SentReadRequest \<lparr>attributes = [pathOf None None None], interactionModelRevision = 1,
                             isFabricFiltered = True\<rparr>,
            ReceivedDataReport, SentStatus Success,
            ReceivedDataReport,
            ReceivedDataReport, SentStatus Success]\<rparr>)"
proof -
  let ?request = "\<lparr>attributes = [pathOf None None None], interactionModelRevision = 1,
                    isFabricFiltered = True\<rparr>"
  let ?rest = "[chunk [3] True (Some True), chunk [4, 5] False None]"
  have h1: "sendReadRequest_result toy_exchange ?request = Inr (chunk [1, 2] True None)"
    by (simp add: toy_exchange_def)
  have h2: "\<forall>i<length ?rest. readDataReport_result toy_exchange i = Inr (?rest ! i)"
    by (auto simp: toy_exchange_def less_Suc_eq)
  have h3: "\<forall>i<length ?rest. truthy (moreChunkedMessages ((chunk [1, 2] True None # ?rest) ! i))"
    by (auto simp: chunk_def less_Suc_eq)
  have h4: "\<not> truthy (moreChunkedMessages (last (chunk [1, 2] True None # ?rest)))"
    by (simp add: chunk_def)
  have h5: "\<forall>i\<le>length ?rest.
              \<not> truthy (suppressResponse ((chunk [1, 2] True None # ?rest) ! i)) \<longrightarrow>
              sendStatus_result toy_exchange i Success = None"
    by (simp add: toy_exchange_def)
  show ?thesis
    using C4_chunked_read[OF h1 h2 h3 h4 h5, of toy_externals client0]
    by (simp add: valuesOf_def statusEvents_def chunk_def toy_externals_def client0_def)
qed


section \<open>The cache of subscribed values\<close>

lemma callListener_cache:
  "subscribedLocalValues (snd (callListener l v ver st)) = subscribedLocalValues st"
  by (simp add: callListener_def emit_def split: option.splits)

text \<open>A cached entry answers \<^verbatim>\<open>get\<close> on its own, whichever listener wrote it.\<close>

lemma get_cache_hit:
  assumes "subscribedLocalValues st
             (attributePathToId ext (pathOf (Some eid) (Some cid) (Some (attribute_id attribute)))) =
           Some c"
  shows "get ext ex eid cid attribute st = Some (Inr (Some (cached_value c)), st)"
  using assms by (simp add: get_def)

text \<open>
  \<^bold>\<open>C6.\<close> Let the listener installed by \<^verbatim>\<open>subscribe\<close> process a report that decodes to the
  single entry \<open>d\<close> with the defined value \<open>v\<close> for the path (\<open>eid\<close>, \<open>cid\<close>, attribute id).
  In every later state \<open>st'\<close> whose cache is still the one the listener left, \<^verbatim>\<open>get\<close> for
  that path returns \<open>v\<close> and leaves the state as it is: the trace gains no event, so no
  messenger is constructed and no read request is sent.
\<close>

theorem C6_get_read_through:
  assumes "report_values report = Some (r # rs)"
      and "normalizeAndDecodeReadAttributeReport ext (r # rs) = Inr [d]"
      and "decoded_value d = Some v"
      and "endpointId (path d) = Some eid"
      and "clusterId (path d) = Some cid"
      and "attributeId (path d) = Some (attribute_id attribute)"
      and "subscribedLocalValues st' =
             subscribedLocalValues (snd (subscribe_subscriptionListener ext l report st))"
  shows "get ext ex eid cid attribute st' = Some (Inr (Some v), st')"
proof -
  have "snd (subscribe_subscriptionListener ext l report st) =
          snd (callListener l v (version d) (cacheSet ext d v st))"
    using assms(1-3) by (simp add: subscribe_subscriptionListener_def)
  then have "subscribedLocalValues st' = subscribedLocalValues (cacheSet ext d v st)"
    using assms(7) by (simp add: callListener_cache)
  then have "subscribedLocalValues st'
               (attributePathToId ext (pathOf (Some eid) (Some cid) (Some (attribute_id attribute)))) =
             Some \<lparr>cached_value = v, cached_version = Some (version d)\<rparr>"
    using assms(4-6) by (simp add: cacheSet_def)
  then show ?thesis
    by (simp add: get_def)
qed

theorem C6_get_read_through_witness:
  "subscribe toy_externals toy_exchange 1 6 \<lparr>attribute_id = 0, attribute_schema = TlvSchemaOf 0\<rparr>
     1 10 None client0 =
     Some (Inr (),
       \<lparr>subscriptionListeners = [42 \<mapsto> SubscribeListener None],
        subscribedLocalValues = [''1/6/0'' \<mapsto> \<lparr>cached_value = JNum 0, cached_version = Some 7\<rparr>],
        trace = [MessengerCreated,
                 SentSubscribeRequest
                   \<lparr>attributeRequests = [pathOf (Some 1) (Some 6) (Some 0)],
                    keepSubscriptions = True, minIntervalFloorSeconds = 1,
                    maxIntervalCeilingSeconds = 10, s_isFabricFiltered = True\<rparr>,
                 ReceivedDataReport, MessengerClosed]\<rparr>) \<and>
   get toy_externals toy_exchange 1 6 \<lparr>attribute_id = 0, attribute_schema = TlvSchemaOf 0\<rparr>
       \<lparr>subscriptionListeners = [42 \<mapsto> SubscribeListener None],
        subscribedLocalValues = [''1/6/0'' \<mapsto> \<lparr>cached_value = JNum 0, cached_version = Some 7\<rparr>],
        trace = [MessengerCreated,
                 SentSubscribeRequest
                   \<lparr>attributeRequests = [pathOf (Some 1) (Some 6) (Some 0)],
                    keepSubscriptions = True, minIntervalFloorSeconds = 1,
                    maxIntervalCeilingSeconds = 10, s_isFabricFiltered = True\<rparr>,
                 ReceivedDataReport, MessengerClosed]\<rparr> =
     Some (Inr (Some (JNum 0)),
       \<lparr>subscriptionListeners = [42 \<mapsto> SubscribeListener None],
        subscribedLocalValues = [''1/6/0'' \<mapsto> \<lparr>cached_value = JNum 0, cached_version = Some 7\<rparr>],
        trace = [MessengerCreated,
                 SentSubscribeRequest
                   \<lparr>attributeRequests = [pathOf (Some 1) (Some 6) (Some 0)],
                    keepSubscriptions = True, minIntervalFloorSeconds = 1,
                    maxIntervalCeilingSeconds = 10, s_isFabricFiltered = True\<rparr>,
                 ReceivedDataReport, MessengerClosed]\<rparr>)"
proof -
  let ?report = "\<lparr>subscriptionId = Some 42, report_values = Some [0::nat],
                   moreChunkedMessages = None, suppressResponse = None\<rparr>"
  let ?a = "\<lparr>attribute_id = 0, attribute_schema = TlvSchemaOf 0\<rparr>"
  let ?request = "\<lparr>attributeRequests = [pathOf (Some 1) (Some 6) (Some 0)],
               keepSubscriptions = True, minIntervalFloorSeconds = 1,
               maxIntervalCeilingSeconds = 10, s_isFabricFiltered = True\<rparr>"
  let ?st' = "\<lparr>subscriptionListeners = [42 \<mapsto> SubscribeListener None],
        subscribedLocalValues = [''1/6/0'' \<mapsto> \<lparr>cached_value = JNum 0, cached_version = Some 7\<rparr>],
        trace = [MessengerCreated, SentSubscribeRequest ?request,
                 ReceivedDataReport, MessengerClosed]\<rparr>"
  have run: "subscribe toy_externals toy_exchange 1 6 ?a 1 10 None client0 = Some (Inr (), ?st')"
    by (simp add: subscribe_def withMessenger_def sendSubscribeRequest_def toy_exchange_def
          subscribe_subscriptionListener_def callListener_def cacheSet_def toy_externals_def
          toy_decode_def pathOf_def emit_def client0_def)
  have h1: "report_values ?report = Some (0 # [])" by simp
  have h2: "normalizeAndDecodeReadAttributeReport toy_externals (0 # []) = Inr [toy_decode 0]"
    by (simp add: toy_externals_def)
  have h3: "decoded_value (toy_decode 0) = Some (JNum 0)" by (simp add: toy_decode_def)
  have h4: "endpointId (path (toy_decode 0)) = Some 1" by (simp add: toy_decode_def pathOf_def)
  have h5: "clusterId (path (toy_decode 0)) = Some 6" by (simp add: toy_decode_def pathOf_def)
  have h6: "attributeId (path (toy_decode 0)) = Some (attribute_id ?a)"
    by (simp add: toy_decode_def pathOf_def)
  have h7: "subscribedLocalValues ?st' =
              subscribedLocalValues
                (snd (subscribe_subscriptionListener toy_externals None ?report client0))"
    by (simp add: subscribe_subscriptionListener_def callListener_def cacheSet_def
          toy_externals_def toy_decode_def pathOf_def client0_def)
  have "get toy_externals toy_exchange 1 6 ?a ?st' = Some (Inr (Some (JNum 0)), ?st')"
    by (rule C6_get_read_through[OF h1 h2 h3 h4 h5 h6 h7])
  with run show ?thesis by simp
qed

lemma withMessenger_cache:
  assumes "\<And>s. \<exists>r s'. body s = Some (r, s') \<and> subscribedLocalValues s' = subscribedLocalValues s"
  shows "\<exists>r s'. withMessenger body st = Some (r, s') \<and>
                 subscribedLocalValues s' = subscribedLocalValues st"
proof -
  obtain r s' where "body (emit MessengerCreated st) = Some (r, s')"
    and "subscribedLocalValues s' = subscribedLocalValues (emit MessengerCreated st)"
    using assms by blast
  then show ?thesis
    by (simp add: withMessenger_def emit_def)
qed

lemma setMultipleAttributes_cache:
  "\<exists>r st'. setMultipleAttributes ext ex attrs st = Some (r, st') \<and>
            subscribedLocalValues st' = subscribedLocalValues st"
  unfolding setMultipleAttributes_def
  by (rule withMessenger_cache)
     (auto simp: sendWriteCommand_def emit_def split: sum.splits option.splits)

text \<open>
  \<^bold>\<open>C7.\<close> Every call of \<^verbatim>\<open>setMultipleAttributes\<close> and every call of \<^verbatim>\<open>set\<close> settles, with a
  value or with an exception, in a state whose \<^verbatim>\<open>subscribedLocalValues\<close> is the map it
  started with: the write path adds, removes and changes no key.
\<close>

theorem C7_write_leaves_cache:
  "(\<exists>r st'. setMultipleAttributes ext ex attrs st = Some (r, st') \<and>
             subscribedLocalValues st' = subscribedLocalValues st) \<and>
   (\<exists>r st'. set_attribute ext ex eid cid attribute v dataVersion st = Some (r, st') \<and>
             subscribedLocalValues st' = subscribedLocalValues st)"
proof
  show "\<exists>r st'. setMultipleAttributes ext ex attrs st = Some (r, st') \<and>
            subscribedLocalValues st' = subscribedLocalValues st"
    by (rule setMultipleAttributes_cache)
next
  let ?w = "[\<lparr>write_endpointId = eid, write_clusterId = cid, write_attribute = attribute,
               write_value = v, write_dataVersion = dataVersion\<rparr>]"
  obtain r st' where m: "setMultipleAttributes ext ex ?w st = Some (r, st')"
    and c: "subscribedLocalValues st' = subscribedLocalValues st"
    using setMultipleAttributes_cache by blast
  show "\<exists>r st'. set_attribute ext ex eid cid attribute v dataVersion st = Some (r, st') \<and>
             subscribedLocalValues st' = subscribedLocalValues st"
    using m c by (auto simp: set_attribute_def split: sum.splits list.splits)
qed


section \<open>Write responses\<close>







section \<open>Command results\<close>

text \<open>
  \<^bold>\<open>C9.\<close> When the request encodes and the first entry of the invoke response carries a
  result with code \<open>code\<close>, \<^verbatim>\<open>invoke\<close> settles as follows: a code other than
  \<^verbatim>\<open>Success\<close> raises the error that carries the code; \<^verbatim>\<open>Success\<close> with the response
  schema \<^verbatim>\<open>TlvNoResponse\<close> returns \<^verbatim>\<open>undefined\<close>; \<^verbatim>\<open>Success\<close> with any other response
  schema raises "A response was expected for this command".
\<close>

theorem C9_invoke_result:
  assumes "encodeTlv ext requestSchema request = Inr args"
      and "sendInvokeCommand_result ex
             \<lparr>invoke_endpointId = eid, invoke_clusterId = cid, invoke_commandId = commandId,
              invoke_args = args, i_timedRequest = False, i_suppressResponse = False,
              i_interactionModelRevision = 1\<rparr> = Inr (Some invokeResponse)"
      and "responses invokeResponse = first # rest"
      and "ire_result first = Some code"
  shows "\<exists>st'. invoke ext ex eid cid request commandId requestSchema responseId responseSchema
                  optional st =
           Some (if code \<noteq> ResultCode_Success then Inl (NonSuccessResult code)
                 else if responseSchema = TlvNoResponse then Inr None
                 else Inl ResponseExpected, st')"
  using assms
  by (simp add: invoke_def withMessenger_def sendInvokeCommand_def)

theorem C9_invoke_result_witness:
  "(\<exists>st'. invoke toy_externals toy_exchange 1 6 (JNum 5) 0 (TlvSchemaOf 0) 0 TlvNoResponse False
            client0 = Some (Inr None, st')) \<and>
   (\<exists>st'. invoke toy_externals toy_exchange 1 6 (JNum 5) 0 (TlvSchemaOf 0) 1 (TlvSchemaOf 1) False
            client0 = Some (Inl ResponseExpected, st')) \<and>
   (\<exists>st'. invoke toy_externals toy_exchange 1 6 (JNum 5) 2 (TlvSchemaOf 0) 0 TlvNoResponse False
            client0 = Some (Inl (NonSuccessResult (ResultCode_Other 1)), st'))"
proof -
  have enc: "encodeTlv toy_externals (TlvSchemaOf 0) (JNum 5) = Inr [5]"
    by (simp add: toy_externals_def)
  have ok: "sendInvokeCommand_result toy_exchange
             \<lparr>invoke_endpointId = 1, invoke_clusterId = 6, invoke_commandId = 0,
              invoke_args = [5], i_timedRequest = False, i_suppressResponse = False,
              i_interactionModelRevision = 1\<rparr> =
            Inr (Some \<lparr>responses = [\<lparr>ire_response = None, ire_result = Some ResultCode_Success\<rparr>]\<rparr>)"
    by (simp add: toy_exchange_def)
  have bad: "sendInvokeCommand_result toy_exchange
             \<lparr>invoke_endpointId = 1, invoke_clusterId = 6, invoke_commandId = 2,
              invoke_args = [5], i_timedRequest = False, i_suppressResponse = False,
              i_interactionModelRevision = 1\<rparr> =
            Inr (Some \<lparr>responses = [\<lparr>ire_response = None, ire_result = Some (ResultCode_Other 1)\<rparr>]\<rparr>)"
    by (simp add: toy_exchange_def)
  have a: "\<exists>st'. invoke toy_externals toy_exchange 1 6 (JNum 5) 0 (TlvSchemaOf 0) 0 TlvNoResponse
                    False client0 = Some (Inr None, st')"
    using C9_invoke_result[OF enc ok, of "\<lparr>ire_response = None, ire_result = Some ResultCode_Success\<rparr>"
            "[]" ResultCode_Success 0 TlvNoResponse False client0]
    by simp
  have b: "\<exists>st'. invoke toy_externals toy_exchange 1 6 (JNum 5) 0 (TlvSchemaOf 0) 1 (TlvSchemaOf 1)
                    False client0 = Some (Inl ResponseExpected, st')"
    using C9_invoke_result[OF enc ok, of "\<lparr>ire_response = None, ire_result = Some ResultCode_Success\<rparr>"
            "[]" ResultCode_Success 1 "TlvSchemaOf 1" False client0]
    by simp
  have c: "\<exists>st'. invoke toy_externals toy_exchange 1 6 (JNum 5) 2 (TlvSchemaOf 0) 0 TlvNoResponse
                    False client0 = Some (Inl (NonSuccessResult (ResultCode_Other 1)), st')"
    using C9_invoke_result[OF enc bad, of "\<lparr>ire_response = None, ire_result = Some (ResultCode_Other 1)\<rparr>"
            "[]" "ResultCode_Other 1" 0 TlvNoResponse False client0]
    by simp
  from a b c show ?thesis by blast
qed


section \<open>Subscription reports\<close>

lemma forEach_value_stops:
  "\<lbrakk> k < length ds; decoded_value (ds ! k) = None;
     \<forall>j<k. decoded_value (ds ! j) \<noteq> None;
     \<forall>j<k. \<forall>f. l = Some f \<longrightarrow> f (ds ! j) = None \<rbrakk>
   \<Longrightarrow> forEach_value ext l ds st =
         (Inl SubscriptionUndefinedValue,
          st\<lparr>subscribedLocalValues := cachedEntries ext (subscribedLocalValues st) (take k ds),
             trace := trace st @
               (case l of None \<Rightarrow> [] | Some f \<Rightarrow> map ListenerCalledWith (take k ds))\<rparr>)"
proof (induction ds arbitrary: k st)
  case Nil
  then show ?case by simp
next
  case (Cons d ds)
  show ?case
  proof (cases k)
    case 0
    with Cons.prems show ?thesis by (cases l) simp_all
  next
    case (Suc k')
    from Cons.prems Suc obtain v where v: "decoded_value d = Some v"
      by (metis nth_Cons_0 not_None_eq zero_less_Suc)
    have quiet: "\<forall>f. l = Some f \<longrightarrow> f d = None"
      using Cons.prems(4) Suc by (metis nth_Cons_0 zero_less_Suc)
    let ?m1 = "(subscribedLocalValues st)
                 (attributePathToId ext
                    \<lparr>nodeId = None, endpointId = endpointId (path d),
                     clusterId = clusterId (path d), attributeId = attributeId (path d)\<rparr>
                  \<mapsto> \<lparr>cached_value = v, cached_version = Some (version d)\<rparr>)"
    let ?t1 = "case l of None \<Rightarrow> [] | Some f \<Rightarrow> [ListenerCalledWith d]"
    let ?st1 = "st\<lparr>subscribedLocalValues := ?m1, trace := trace st @ ?t1\<rparr>"
    have step: "callListenerWith l d (cacheSet ext d v st) = (Inr (), ?st1)"
      using quiet
      by (cases l) (simp_all add: callListenerWith_def cacheSet_def pathOf_def emit_def)
    have p1: "k' < length ds" using Cons.prems(1) Suc by simp
    have p2: "decoded_value (ds ! k') = None" using Cons.prems(2) Suc by simp
    have p3: "\<forall>j<k'. decoded_value (ds ! j) \<noteq> None"
      using Cons.prems(3) Suc by (metis Suc_less_eq nth_Cons_Suc)
    have p4: "\<forall>j<k'. \<forall>f. l = Some f \<longrightarrow> f (ds ! j) = None"
      using Cons.prems(4) Suc by (metis Suc_less_eq nth_Cons_Suc)
    have lhs: "forEach_value ext l (d # ds) st = forEach_value ext l ds ?st1"
      using v step by simp
    have sel: "subscribedLocalValues ?st1 = ?m1" by simp
    have tr1: "trace ?st1 = trace st @ ?t1" by simp
    have upd: "?st1\<lparr>subscribedLocalValues := A, trace := B\<rparr> =
               st\<lparr>subscribedLocalValues := A, trace := B\<rparr>" for A B
      by simp
    have ih: "forEach_value ext l ds ?st1 =
                (Inl SubscriptionUndefinedValue,
                 st\<lparr>subscribedLocalValues := cachedEntries ext ?m1 (take k' ds),
                    trace := (trace st @ ?t1) @
                      (case l of None \<Rightarrow> [] | Some f \<Rightarrow> map ListenerCalledWith (take k' ds))\<rparr>)"
      using Cons.IH[OF p1 p2 p3 p4, of ?st1] by (simp only: sel tr1 upd)
    have rhs_c: "cachedEntries ext (subscribedLocalValues st) (take k (d # ds)) =
                 cachedEntries ext ?m1 (take k' ds)"
      using v Suc by simp
    have rhs_t: "(case l of None \<Rightarrow> [] | Some f \<Rightarrow> map ListenerCalledWith (take k (d # ds))) =
                 ?t1 @ (case l of None \<Rightarrow> [] | Some f \<Rightarrow> map ListenerCalledWith (take k' ds))"
      using Suc by (cases l) simp_all
    show ?thesis
      unfolding lhs ih rhs_c rhs_t by simp
  qed
qed

lemma forEach_value_raises:
  "\<lbrakk> k < length ds; decoded_value (ds ! k) = None \<rbrakk>
   \<Longrightarrow> isl (fst (forEach_value ext l ds st))"
proof (induction ds arbitrary: k st)
  case Nil
  then show ?case by simp
next
  case (Cons d ds)
  show ?case
  proof (cases "decoded_value d")
    case None
    then show ?thesis by simp
  next
    case (Some v)
    then obtain k' where k: "k = Suc k'"
      using Cons.prems(2) by (cases k) simp_all
    obtain res st' where c: "callListenerWith l d (cacheSet ext d v st) = (res, st')"
      by (cases "callListenerWith l d (cacheSet ext d v st)")
    have "isl (fst (forEach_value ext l ds st'))"
      using Cons.IH[of k' st'] Cons.prems k by simp
    then show ?thesis
      using Some c by (cases res) simp_all
  qed
qed

text \<open>
  \<^bold>\<open>C10\<close>, as stated, fails when the undefined entry at position \<open>k\<close> is not where the
  listener stops. In the first report below the entries at positions 0 and 2 are
  undefined and the one at position 1 carries attribute 0: the listener throws at
  position 0 and attribute 0 never reaches the cache. In the second the user callback
  throws on the first entry: the listener rejects with the callback's exception, and the
  entry at position 1, which precedes the undefined one at position 2, is neither cached
  nor passed to the callback.
\<close>

theorem C10_counterexample:
  "decoded_value (toy_decode 99) = None \<and>
   decoded_value (toy_decode 0) = Some (JNum 0) \<and>
   subscribeMultipleAttributes_subscriptionListener toy_externals None
     \<lparr>subscriptionId = Some 42, report_values = Some [99, 0, 99],
      moreChunkedMessages = None, suppressResponse = None\<rparr> client0 =
     (Inl SubscriptionUndefinedValue, client0) \<and>
   subscribedLocalValues client0 ''1/6/0'' = None \<and>
   subscribeMultipleAttributes_subscriptionListener toy_externals
     (Some (\<lambda>d. Some (External ''callback'')))
     \<lparr>subscriptionId = Some 42, report_values = Some [0, 1, 99],
      moreChunkedMessages = None, suppressResponse = None\<rparr> client0 =
     (Inl (External ''callback''),
      client0\<lparr>subscribedLocalValues :=
                [''1/6/0'' \<mapsto> \<lparr>cached_value = JNum 0, cached_version = Some 7\<rparr>],
              trace := [ListenerCalledWith (toy_decode 0)]\<rparr>)"
  by (simp add: subscribeMultipleAttributes_subscriptionListener_def callListenerWith_def
        cacheSet_def emit_def pathOf_def toy_externals_def toy_decode_def client0_def)

text \<open>
  \<^bold>\<open>C10\<close>, amended. Let the listener installed by \<^verbatim>\<open>subscribeMultipleAttributes\<close> receive a
  non-empty report that decodes to \<open>ds\<close>, with an undefined value at position \<open>k\<close>. Then
  the listener raises an error. If moreover \<open>k\<close> is the first position with an undefined
  value and the user callback (if there is one) returns normally on the entries before
  \<open>k\<close>, the error is "Subscription result reporting undefined value not specified" and
  the effects of the entries before \<open>k\<close> have been made and stay: the cache is the old
  cache with each of these entries written under its key, in order; the callback has
  been called once for each of them, in order; nothing else has changed, and the entries
  from \<open>k\<close> on have no effect.
\<close>

theorem C10_report_not_atomic:
  assumes "report_values report = Some (r # rs)"
      and "normalizeAndDecodeReadAttributeReport ext (r # rs) = Inr ds"
      and "k < length ds"
      and "decoded_value (ds ! k) = None"
  shows "isl (fst (subscribeMultipleAttributes_subscriptionListener ext l report st)) \<and>
         ((\<forall>j<k. decoded_value (ds ! j) \<noteq> None) \<and>
          (\<forall>j<k. \<forall>f. l = Some f \<longrightarrow> f (ds ! j) = None) \<longrightarrow>
          subscribeMultipleAttributes_subscriptionListener ext l report st =
            (Inl SubscriptionUndefinedValue,
             st\<lparr>subscribedLocalValues :=
                  cachedEntries ext (subscribedLocalValues st) (take k ds),
                trace := trace st @
                  (case l of None \<Rightarrow> [] | Some f \<Rightarrow> map ListenerCalledWith (take k ds))\<rparr>))"
proof -
  have run: "subscribeMultipleAttributes_subscriptionListener ext l report st =
               forEach_value ext l ds st"
    using assms(1,2) by (simp add: subscribeMultipleAttributes_subscriptionListener_def)
  show ?thesis
    unfolding run
    using forEach_value_raises[OF assms(3,4)] forEach_value_stops[OF assms(3,4)]
    by blast
qed

theorem C10_report_not_atomic_witness:
  "subscribeMultipleAttributes_subscriptionListener toy_externals (Some (\<lambda>d. None))
     \<lparr>subscriptionId = Some 42, report_values = Some [0, 1, 99, 0],
      moreChunkedMessages = None, suppressResponse = None\<rparr> client_cached =
   (Inl SubscriptionUndefinedValue,
    client0\<lparr>subscribedLocalValues :=
              [''other'' \<mapsto> \<lparr>cached_value = JBool True, cached_version = None\<rparr>,
               ''1/6/0'' \<mapsto> \<lparr>cached_value = JNum 0, cached_version = Some 7\<rparr>,
               ''1/6/1'' \<mapsto> \<lparr>cached_value = JNum 1, cached_version = Some 7\<rparr>],
            trace := [ListenerCalledWith (toy_decode 0), ListenerCalledWith (toy_decode 1)]\<rparr>)"
proof -
  let ?report = "\<lparr>subscriptionId = Some 42, report_values = Some [0::nat, 1, 99, 0],
      moreChunkedMessages = None, suppressResponse = None\<rparr>"
  let ?ds = "[toy_decode 0, toy_decode 1, toy_decode 99, toy_decode 0]"
  let ?l = "Some (\<lambda>d::DecodedAttributeReportValue. None::error option)"
  have h1: "report_values ?report = Some (0 # [1, 99, 0])" by simp
  have h2: "normalizeAndDecodeReadAttributeReport toy_externals (0 # [1, 99, 0]) = Inr ?ds"
    by (simp add: toy_externals_def)
  have h3: "Suc (Suc 0) < length ?ds" by simp
  have h4: "decoded_value (?ds ! Suc (Suc 0)) = None" by (simp add: toy_decode_def)
  have h5: "\<forall>j<Suc (Suc 0). decoded_value (?ds ! j) \<noteq> None"
    by (auto simp: toy_decode_def less_Suc_eq)
  have h6: "\<forall>j<Suc (Suc 0). \<forall>f. ?l = Some f \<longrightarrow> f (?ds ! j) = None" by simp
  have run: "subscribeMultipleAttributes_subscriptionListener toy_externals ?l ?report
               client_cached =
             (Inl SubscriptionUndefinedValue,
              client_cached\<lparr>subscribedLocalValues :=
                  cachedEntries toy_externals (subscribedLocalValues client_cached)
                    (take (Suc (Suc 0)) ?ds),
                trace := trace client_cached @
                  (case ?l of None \<Rightarrow> []
                   | Some f \<Rightarrow> map ListenerCalledWith (take (Suc (Suc 0)) ?ds))\<rparr>)"
    using C10_report_not_atomic[OF h1 h2 h3 h4, of ?l client_cached] h5 h6 by blast
  show ?thesis
    unfolding run
    by (simp add: toy_decode_def toy_externals_def pathOf_def client_cached_def client0_def)
qed

lemma callListener_listeners:
  "subscriptionListeners (snd (callListener l v ver st)) = subscriptionListeners st"
  by (simp add: callListener_def emit_def split: option.splits)

lemma callListenerWith_listeners:
  "subscriptionListeners (snd (callListenerWith l d st)) = subscriptionListeners st"
  by (simp add: callListenerWith_def emit_def split: option.splits)

lemma forEach_value_listeners:
  "subscriptionListeners (snd (forEach_value ext l ds st)) = subscriptionListeners st"
proof (induction ds arbitrary: st)
  case Nil
  then show ?case by simp
next
  case (Cons d ds)
  show ?case
  proof (cases "decoded_value d")
    case None
    then show ?thesis by simp
  next
    case (Some v)
    obtain res st' where c: "callListenerWith l d (cacheSet ext d v st) = (res, st')"
      by (cases "callListenerWith l d (cacheSet ext d v st)")
    have "subscriptionListeners st' = subscriptionListeners (cacheSet ext d v st)"
      using callListenerWith_listeners[of l d "cacheSet ext d v st"] c by simp
    then have k: "subscriptionListeners st' = subscriptionListeners st"
      by (simp add: cacheSet_def)
    show ?thesis
      using Some c k Cons.IH[of st'] by (cases res) simp_all
  qed
qed

lemma invokeListener_listeners:
  "subscriptionListeners (snd (invokeListener ext listener report st)) = subscriptionListeners st"
proof (cases listener)
  case (SubscribeListener l)
  then show ?thesis
    by (auto simp: subscribe_subscriptionListener_def callListener_listeners cacheSet_def emit_def
             split: option.splits list.splits sum.splits)
next
  case (SubscribeMultipleListener l)
  then show ?thesis
    by (auto simp: subscribeMultipleAttributes_subscriptionListener_def forEach_value_listeners
                   emit_def split: option.splits list.splits sum.splits)
qed

text \<open>
  \<^bold>\<open>C5\<close>, as stated, fails: the receiver has no \<^verbatim>\<open>try\<close> around the listener call and no
  logger call. On the report below the registered listener throws (the decoded value is
  undefined); \<^verbatim>\<open>onNewExchange\<close> rejects with that very exception, and the trace holds the
  messenger, the receipt and the \<^verbatim>\<open>Success\<close> status but no log line.
\<close>

theorem C5_counterexample:
  "SubscriptionClient_onNewExchange toy_externals (incoming_exchange [99]) client42 =
     (Inl SubscriptionUndefinedValue,
      client42\<lparr>trace := [MessengerCreated, ReceivedDataReport, SentStatus Success]\<rparr>)"
  by (simp add: SubscriptionClient_onNewExchange_def readDataReport_def sendStatus_def
        incoming_exchange_def toy_exchange_def client42_def client0_def emit_def
        subscribe_subscriptionListener_def toy_externals_def toy_decode_def)

text \<open>
  \<^bold>\<open>C5\<close>, amended. For an inbound report whose subscription id maps to a registered
  listener, and a \<^verbatim>\<open>Success\<close> status that goes through, \<^verbatim>\<open>onNewExchange\<close> replies
  \<^verbatim>\<open>Success\<close> and then calls the listener, and it settles exactly as the listener call
  does: if the listener throws, \<^verbatim>\<open>onNewExchange\<close> rejects with the same exception, which is
  neither caught nor logged there. The map of listeners is left as it was.
\<close>

theorem C5_listener_exception_propagates:
  assumes "readDataReport_result ex 0 = Inr report"
      and "subscriptionId report = Some sid"
      and "subscriptionListeners st sid = Some listener"
      and "sendStatus_result ex 1 Success = None"
  shows "SubscriptionClient_onNewExchange ext ex st =
           invokeListener ext listener report
             (st\<lparr>trace := trace st @ [MessengerCreated, ReceivedDataReport, SentStatus Success]\<rparr>) \<and>
         subscriptionListeners (snd (SubscriptionClient_onNewExchange ext ex st)) =
           subscriptionListeners st"
proof -
  have run: "SubscriptionClient_onNewExchange ext ex st =
           invokeListener ext listener report
             (st\<lparr>trace := trace st @ [MessengerCreated, ReceivedDataReport, SentStatus Success]\<rparr>)"
    using assms
    by (simp add: SubscriptionClient_onNewExchange_def readDataReport_def sendStatus_def emit_def)
  show ?thesis
    unfolding run by (simp add: invokeListener_listeners)
qed

theorem C5_listener_exception_propagates_witness:
  "fst (SubscriptionClient_onNewExchange toy_externals (incoming_exchange [99]) client42) =
     fst (invokeListener toy_externals (SubscribeListener None)
            \<lparr>subscriptionId = Some 42, report_values = Some [99],
             moreChunkedMessages = None, suppressResponse = None\<rparr>
            (client42\<lparr>trace := [MessengerCreated, ReceivedDataReport, SentStatus Success]\<rparr>)) \<and>
   fst (SubscriptionClient_onNewExchange toy_externals (incoming_exchange [99]) client42) =
     Inl SubscriptionUndefinedValue \<and>
   subscriptionListeners
     (snd (SubscriptionClient_onNewExchange toy_externals (incoming_exchange [99]) client42)) 42 =
     Some (SubscribeListener None)"
proof -
  let ?report = "\<lparr>subscriptionId = Some 42, report_values = Some [99::nat],
             moreChunkedMessages = None, suppressResponse = None\<rparr>"
  have h1: "readDataReport_result (incoming_exchange [99]) 0 = Inr ?report"
    by (simp add: incoming_exchange_def)
  have h2: "subscriptionId ?report = Some 42" by simp
  have h3: "subscriptionListeners client42 42 = Some (SubscribeListener None)"
    by (simp add: client42_def)
  have h4: "sendStatus_result (incoming_exchange [99]) 1 Success = None"
    by (simp add: incoming_exchange_def toy_exchange_def)
  have t: "trace client42 = []" by (simp add: client42_def client0_def)
  show ?thesis
    using C5_listener_exception_propagates[OF h1 h2 h3 h4, of toy_externals] h3
    by (simp add: t subscribe_subscriptionListener_def toy_externals_def toy_decode_def)
qed


section \<open>PASE key confirmation\<close>

text \<open>
  \<^bold>\<open>C2\<close>, as stated, fails in one point: \<^verbatim>\<open>pair\<close> calls \<^verbatim>\<open>messenger.close()\<close> only after
  the session has been created, and has no \<^verbatim>\<open>try\<close>. In scenario S2 the pairing raises
  the key-confirmation error with the messenger still open.
\<close>

theorem C2_counterexample:
  "fst (pair toy_crypto toy_spake2p toy_pase_constants toy_controller S2_peer 20202021 []) =
     Inl IncorrectKeyConfirmation \<and>
   HsMessengerClosed \<notin>
     set (snd (pair toy_crypto toy_spake2p toy_pase_constants toy_controller S2_peer 20202021 []))"
  by (simp add: pair_def bindE_def liftE_def throwE_def returnE_def pase_event_def
        sendPbkdfParamRequest_def sendPasePake1_def toy_crypto_def toy_spake2p_def
        toy_pase_constants_def toy_controller_def S2_peer_def)

text \<open>
  \<^bold>\<open>C2\<close>, amended. In every pairing that gets as far as \<^verbatim>\<open>Pake2\<close> (the two parameter
  messages and \<^verbatim>\<open>Pake1\<close> went through and the SPAKE2+ computations returned) and whose
  \<^verbatim>\<open>Pake2\<close> verifier differs from the locally computed \<open>hBX\<close>, \<^verbatim>\<open>pair\<close> raises "Received
  incorrect key confirmation from the receiver", and all it has done by then is construct
  the messenger and send the parameter request and \<^verbatim>\<open>Pake1\<close>: \<^verbatim>\<open>createSecureSession\<close> is not
  called, \<^verbatim>\<open>Pake3\<close> is not sent, and the messenger is not closed by \<^verbatim>\<open>pair\<close>.
\<close>

theorem C2_verifier_mismatch:
  assumes "request = \<lparr>pbkdf_random = getRandom cr,
                       pbkdf_sessionId = controller_getNextAvailableSessionId client,
                       passcodeId = DEFAULT_PASSCODE_ID k, hasPbkdfParameters = False\<rparr>"
      and "sendPbkdfParamRequest_result peer request = Inr requestPayload"
      and "readPbkdfParamResponse_result peer = Inr (responsePayload, response)"
      and "pbkdfParameters response = Some params"
      and "computeW0W1 sp params setupPin = Inr (w0, w1)"
      and "context = hash cr [SPAKE_CONTEXT k, requestPayload, responsePayload]"
      and "X = computeX sp context w0"
      and "sendPasePake1_result peer X = None"
      and "readPasePake2_result peer = Inr (Y, verifier)"
      and "computeSecretAndVerifiersFromY sp context w0 w1 X Y = Inr (Ke, hAY, hBX)"
      and "verifier \<noteq> hBX"
  shows "pair cr sp k client peer setupPin tr =
           (Inl IncorrectKeyConfirmation,
            tr @ [HsMessengerCreated, SentPbkdfParamRequest request, SentPasePake1 X])"
  using assms
  by (simp add: pair_def bindE_def liftE_def throwE_def returnE_def pase_event_def
        sendPbkdfParamRequest_def sendPasePake1_def Let_def)

theorem C2_verifier_mismatch_witness:
  "pair toy_crypto toy_spake2p toy_pase_constants toy_controller S2_peer 20202021 [] =
     (Inl IncorrectKeyConfirmation,
      [HsMessengerCreated,
       SentPbkdfParamRequest \<lparr>pbkdf_random = [10, 11], pbkdf_sessionId = 1, passcodeId = 0,
                              hasPbkdfParameters = False\<rparr>,
       SentPasePake1 [33]])"
proof -
  let ?request = "\<lparr>pbkdf_random = [10, 11], pbkdf_sessionId = 1, passcodeId = 0,
                    hasPbkdfParameters = False\<rparr>"
  let ?response = "\<lparr>pbkdfParameters = Some \<lparr>iterations = 1000, salt = [0, 1, 2, 3, 4, 5, 6, 7]\<rparr>,
                     peer_sessionId = 2\<rparr>"
  have h1: "?request = \<lparr>pbkdf_random = getRandom toy_crypto,
                       pbkdf_sessionId = controller_getNextAvailableSessionId toy_controller,
                       passcodeId = DEFAULT_PASSCODE_ID toy_pase_constants,
                       hasPbkdfParameters = False\<rparr>"
    by (simp add: toy_crypto_def toy_controller_def toy_pase_constants_def)
  have h2: "sendPbkdfParamRequest_result S2_peer ?request = Inr [16]"
    by (simp add: S2_peer_def)
  have h3: "readPbkdfParamResponse_result S2_peer = Inr ([32], ?response)"
    by (simp add: S2_peer_def)
  have h4: "pbkdfParameters ?response = Some \<lparr>iterations = 1000, salt = [0, 1, 2, 3, 4, 5, 6, 7]\<rparr>"
    by simp
  have h5: "computeW0W1 toy_spake2p \<lparr>iterations = 1000, salt = [0, 1, 2, 3, 4, 5, 6, 7]\<rparr> 20202021 =
              Inr (20202021, 20202022)"
    by (simp add: toy_spake2p_def)
  have h6: "[67, 16, 32] = hash toy_crypto [SPAKE_CONTEXT toy_pase_constants, [16], [32]]"
    by (simp add: toy_crypto_def toy_pase_constants_def)
  have h7: "[33] = computeX toy_spake2p [67, 16, 32] 20202021"
    by (simp add: toy_spake2p_def)
  have h8: "sendPasePake1_result S2_peer [33] = None"
    by (simp add: S2_peer_def)
  have h9: "readPasePake2_result S2_peer = Inr ([48], [4])"
    by (simp add: S2_peer_def)
  have h10: "computeSecretAndVerifiersFromY toy_spake2p [67, 16, 32] 20202021 20202022 [33] [48] =
               Inr ([1], [2], [3])"
    by (simp add: toy_spake2p_def)
  have h11: "[4::8 word] \<noteq> [3]" by simp
  show ?thesis
    using C2_verifier_mismatch[OF h1 h2 h3 h4 h5 h6 h7 h8 h9 h10 h11, of "[]"] by simp
qed


section \<open>CASE resumption\<close>

lemma resumeReachesWaitForSuccess_events:
  "resumeReachesWaitForSuccess env (s\<lparr>events := es\<rparr>) sigma1Bytes sigma1 peerResumptionId
     peerResumeMic ref peerResumeKey resumeKey =
   resumeReachesWaitForSuccess env s sigma1Bytes sigma1 peerResumptionId
     peerResumeMic ref peerResumeKey resumeKey"
  by (simp add: resumeReachesWaitForSuccess_def resume_session_def)

lemma resume_session_events:
  "resume_session env (s\<lparr>events := es\<rparr>) sigma1 peerResumptionId ref =
   resume_session env s sigma1 peerResumptionId ref"
  by (simp add: resume_session_def)

text \<open>The whole run of a resume handshake that reaches \<^verbatim>\<open>waitForSuccess\<close>.\<close>

lemma handleSigma1_resume_run:
  assumes "resumeReachesWaitForSuccess env s sigma1Bytes sigma1 peerResumptionId peerResumeMic ref
             peerResumeKey resumeKey"
  shows "handleSigma1 env s =
    (case waitForSuccess_result (env_peer env) of
       None \<Rightarrow>
         (Inr (),
          s\<lparr>resumptionRecords := (resumptionRecords s)
               (ref := (resumptionRecords s ref)\<lparr>rr_resumptionId := getRandomData (env_crypto env) 16\<rparr>),
            events := events s @
              [LoggerInfo ''Case server: Received pairing request'',
               SecureSessionCreated (resume_session env s sigma1 peerResumptionId ref),
               SentSigma2Resume (resume_reply env resumeKey),
               LoggerInfo ''Case server: session resumed'',
               HsMessengerClosed,
               ResumptionRecordSaved
                 ((resumptionRecords s ref)\<lparr>rr_resumptionId := getRandomData (env_crypto env) 16\<rparr>)]\<rparr>)
     | Some e \<Rightarrow>
         (Inl e,
          s\<lparr>resumptionRecords := (resumptionRecords s)
               (ref := (resumptionRecords s ref)\<lparr>rr_resumptionId := getRandomData (env_crypto env) 16\<rparr>),
            events := events s @
              [LoggerInfo ''Case server: Received pairing request'',
               SecureSessionCreated (resume_session env s sigma1 peerResumptionId ref),
               SentSigma2Resume (resume_reply env resumeKey),
               LoggerInfo ''Case server: session resumed'']\<rparr>))"
proof -
  obtain plain where d: "decrypt (env_crypto env) peerResumeKey peerResumeMic
              (RESUME1_MIC_NONCE (env_constants env)) = Inr plain"
    using assms unfolding resumeReachesWaitForSuccess_def
    by (cases "decrypt (env_crypto env) peerResumeKey peerResumeMic
              (RESUME1_MIC_NONCE (env_constants env))") auto
  show ?thesis
    using assms d
    unfolding resumeReachesWaitForSuccess_def handleSigma1_def handleSigma1_resume_def
    by (simp add: bindE_def liftE_def returnE_def throwE_def tryCatch_def checkE_def
          case_event_def createSecureSession_def sendSigma2Resume_def assignResumptionId_def
          saveResumptionRecord_def resume_session_def resume_reply_def Let_def
          split: option.splits)
qed

text \<open>What \<^verbatim>\<open>onNewExchange\<close> does when \<^verbatim>\<open>handleSigma1\<close> throws and the error status goes out.\<close>

lemma CaseServer_onNewExchange_catch:
  assumes "handleSigma1 env (s\<lparr>events := events s @ [HsMessengerCreated]\<rparr>) = (Inl e, s')"
      and "sendError_result (env_peer env) = None"
  shows "CaseServer_onNewExchange env s =
           (Inr (), s'\<lparr>events := events s' @ [LoggerError e, SentError]\<rparr>)"
  using assms
  by (simp add: CaseServer_onNewExchange_def bindE_def tryCatch_def case_event_def sendError_def)

text \<open>A resume request whose MIC does not decrypt: the error is raised before any session exists.\<close>

lemma handleSigma1_resume_bad_mic:
  assumes "readSigma1_result (env_peer env) = Inr (sigma1Bytes, sigma1)"
      and "s1_resumptionId sigma1 = Some peerResumptionId"
      and "s1_resumeMic sigma1 = Some peerResumeMic"
      and "findResumptionRecordById (env_device env) peerResumptionId = Some ref"
      and "hkdf (env_crypto env) (rr_sharedSecret (resumptionRecords s ref))
             (s1_random sigma1 @ peerResumptionId) (KDFSR1_KEY_INFO (env_constants env)) =
             Inr peerResumeKey"
      and "decrypt (env_crypto env) peerResumeKey peerResumeMic
             (RESUME1_MIC_NONCE (env_constants env)) = Inl e"
  shows "handleSigma1 env s =
           (Inl e, s\<lparr>events := events s @ [LoggerInfo ''Case server: Received pairing request'']\<rparr>)"
  using assms
  unfolding handleSigma1_def handleSigma1_resume_def
  by (simp add: bindE_def liftE_def case_event_def Let_def)

text \<open>
  The full branch: when the final \<^verbatim>\<open>Success\<close> status goes through, a handshake that
  throws has thrown before \<^verbatim>\<open>createSecureSession\<close> returned, so the only event it can have
  added is the \<^verbatim>\<open>Sigma2\<close> message. This covers a failing sigma3 decryption, certificate
  verification and signature verification.
\<close>

lemma handleSigma1_full_failure_no_session:
  assumes "handleSigma1_full env sessionId random resumptionId sigma1Bytes sigma1 s = (Inl e, s')"
      and "sendSuccess_result (env_peer env) = None"
  shows "events s' = events s \<or> (\<exists>msg. events s' = events s @ [SentSigma2 msg])"
  using assms
  unfolding handleSigma1_full_def
  by (auto simp: bindE_def liftE_def returnE_def throwE_def checkE_def case_event_def
        createSecureSession_def sendSigma2_def sendSuccess_def saveResumptionRecord_def Let_def
        split: sum.splits option.splits prod.splits)

text \<open>
  A resume handshake in which the peer never confirms: the error status is sent, and the
  session created before \<^verbatim>\<open>Sigma2Resume\<close> is still alive when \<^verbatim>\<open>onNewExchange\<close> returns.
\<close>

lemma CaseServer_onNewExchange_unconfirmed_resume:
  assumes "resumeReachesWaitForSuccess env s sigma1Bytes sigma1 peerResumptionId peerResumeMic ref
             peerResumeKey resumeKey"
      and "waitForSuccess_result (env_peer env) = Some e"
      and "sendError_result (env_peer env) = None"
  shows "fst (CaseServer_onNewExchange env s) = Inr () \<and>
         newEvents s (snd (CaseServer_onNewExchange env s)) =
           [HsMessengerCreated,
            LoggerInfo ''Case server: Received pairing request'',
            SecureSessionCreated (resume_session env s sigma1 peerResumptionId ref),
            SentSigma2Resume (resume_reply env resumeKey),
            LoggerInfo ''Case server: session resumed'',
            LoggerError e, SentError] \<and>
         sessionsAlive (newEvents s (snd (CaseServer_onNewExchange env s))) =
           [resume_session env s sigma1 peerResumptionId ref]"
proof -
  let ?s1 = "s\<lparr>events := events s @ [HsMessengerCreated]\<rparr>"
  have reach: "resumeReachesWaitForSuccess env ?s1 sigma1Bytes sigma1 peerResumptionId
                 peerResumeMic ref peerResumeKey resumeKey"
    using assms(1) by (simp add: resumeReachesWaitForSuccess_events)
  have run: "handleSigma1 env ?s1 =
         (Inl e,
          ?s1\<lparr>resumptionRecords := (resumptionRecords ?s1)
               (ref := (resumptionRecords ?s1 ref)\<lparr>rr_resumptionId := getRandomData (env_crypto env) 16\<rparr>),
            events := events ?s1 @
              [LoggerInfo ''Case server: Received pairing request'',
               SecureSessionCreated (resume_session env ?s1 sigma1 peerResumptionId ref),
               SentSigma2Resume (resume_reply env resumeKey),
               LoggerInfo ''Case server: session resumed'']\<rparr>)"
    using handleSigma1_resume_run[OF reach] assms(2) by simp
  have ev: "newEvents s (snd (CaseServer_onNewExchange env s)) =
           [HsMessengerCreated,
            LoggerInfo ''Case server: Received pairing request'',
            SecureSessionCreated (resume_session env s sigma1 peerResumptionId ref),
            SentSigma2Resume (resume_reply env resumeKey),
            LoggerInfo ''Case server: session resumed'',
            LoggerError e, SentError]"
    unfolding CaseServer_onNewExchange_catch[OF run assms(3)]
    by (simp add: newEvents_def resume_session_events)
  have res: "fst (CaseServer_onNewExchange env s) = Inr ()"
    unfolding CaseServer_onNewExchange_catch[OF run assms(3)] by simp
  show ?thesis
    unfolding ev using res by (simp add: sessionsAlive_def)
qed

lemma S3_reaches:
  "resumeReachesWaitForSuccess (S3_env confirmation) S3_server [49] S3_sigma1 [1]
     [85, 10, 1, 81, 91] 0 [85, 10, 1, 81] ([85, 10] @ replicate 16 171 @ [83])"
  by (simp add: resumeReachesWaitForSuccess_def S3_env_def S3_peer_def S3_sigma1_def
        S3_server_def toy_device_def toy_crypto_def toy_case_constants_def)

text \<open>
  \<^bold>\<open>C1.\<close> The claim holds for the steps that precede \<^verbatim>\<open>createSecureSession\<close>, but not for
  the later ones. In scenario S3 with a peer that never confirms, \<^verbatim>\<open>waitForSuccess\<close>
  throws after the session has been created and \<^verbatim>\<open>Sigma2Resume\<close> sent; \<^verbatim>\<open>onNewExchange\<close>
  logs the error and sends the error status, and the session is still alive afterwards:
  only a failure of \<^verbatim>\<open>sendSigma2Resume\<close> destroys it.
\<close>

theorem C1_session_survives_unconfirmed_resume:
  "fst (CaseServer_onNewExchange (S3_env (Some (External ''Timeout''))) S3_server) = Inr () \<and>
   last (events (snd (CaseServer_onNewExchange (S3_env (Some (External ''Timeout''))) S3_server))) =
     SentError \<and>
   sessionsAlive
     (events (snd (CaseServer_onNewExchange (S3_env (Some (External ''Timeout''))) S3_server))) =
     [\<lparr>ss_sessionId = 7, ss_fabric = Some toy_fabric, ss_peerNodeId = 5, ss_peerSessionId = 9,
       ss_sharedSecret = [85], ss_salt = [10, 1], ss_isInitiator = False, ss_isResumption = True,
       ss_idleRetransTimeoutMs = None, ss_activeRetransTimeoutMs = None\<rparr>]"
proof -
  have w: "waitForSuccess_result (env_peer (S3_env (Some (External ''Timeout'')))) =
             Some (External ''Timeout'')"
    by (simp add: S3_env_def S3_peer_def)
  have se: "sendError_result (env_peer (S3_env (Some (External ''Timeout'')))) = None"
    by (simp add: S3_env_def S3_peer_def)
  have e0: "events S3_server = []" by (simp add: S3_server_def)
  have sess: "resume_session (S3_env (Some (External ''Timeout''))) S3_server S3_sigma1 [1] 0 =
     \<lparr>ss_sessionId = 7, ss_fabric = Some toy_fabric, ss_peerNodeId = 5, ss_peerSessionId = 9,
       ss_sharedSecret = [85], ss_salt = [10, 1], ss_isInitiator = False, ss_isResumption = True,
       ss_idleRetransTimeoutMs = None, ss_activeRetransTimeoutMs = None\<rparr>"
    by (simp add: resume_session_def S3_env_def S3_server_def S3_sigma1_def toy_device_def)
  show ?thesis
    using CaseServer_onNewExchange_unconfirmed_resume[OF S3_reaches w se]
    by (simp add: newEvents_def e0 sess sessionsAlive_def)
qed






end
